theory Spec2Isabelle
  imports Complex_Main
begin

text \<open>
  A model of the KYC workflow of the backend: the service (\<open>services/kyc_service.py\<close>),
  the repository over the document store (\<open>database/kyc_repository.py\<close>), the face
  verification service (\<open>services/face_verification.py\<close>) and the validation of payloads
  (\<open>utils/validators.py\<close>).  Each Python function is a HOL function of the same name that
  takes the database and returns the result together with the database afterwards; what
  a call receives from outside (the clock, generated identifiers, the outcome of library
  and network calls) is the record \<open>world\<close>.  An exception is a value \<open>Inl e\<close>, and every
  \<open>try\<close> of the source is a case distinction on it.
\<close>

section \<open>Python values\<close>

text \<open>
  Request payloads (\<open>kyc_data\<close>, \<open>update_data\<close>) are JSON objects; the free-form parts of a
  stored document are kept as the same values.  A dict is an association list, so that key
  order and equality of documents are computable.
\<close>

datatype pyval =
    PNone
  | PBool bool
  | PInt int
  | PFloat real
  | PStr string
  | PList "pyval list"
  | PDict "(string \<times> pyval) list"

type_synonym pydict = "(string \<times> pyval) list"

text \<open>Truth value of a Python object as used by \<open>if x\<close> and \<open>not x\<close>.\<close>

fun truthy :: "pyval \<Rightarrow> bool" where
  "truthy PNone = False"
| "truthy (PBool b) = b"
| "truthy (PInt i) = (i \<noteq> 0)"
| "truthy (PFloat r) = (r \<noteq> 0)"
| "truthy (PStr s) = (s \<noteq> [])"
| "truthy (PList xs) = (xs \<noteq> [])"
| "truthy (PDict kvs) = (kvs \<noteq> [])"

text \<open>\<open>k in d\<close>, \<open>d.get(k)\<close>, \<open>d.get(k, default)\<close>, \<open>d[k] = v\<close>, \<open>d.pop(k, None)\<close> and
  \<open>{**a, **b}\<close>.\<close>

definition has_key :: "('k \<times> 'v) list \<Rightarrow> 'k \<Rightarrow> bool" where
  "has_key d k = (case map_of d k of None \<Rightarrow> False | Some v \<Rightarrow> True)"

definition dict_get :: "pydict \<Rightarrow> string \<Rightarrow> pyval" where
  "dict_get d k = (case map_of d k of None \<Rightarrow> PNone | Some v \<Rightarrow> v)"

definition dict_get_default :: "pydict \<Rightarrow> string \<Rightarrow> pyval \<Rightarrow> pyval" where
  "dict_get_default d k dflt = (case map_of d k of None \<Rightarrow> dflt | Some v \<Rightarrow> v)"

fun dict_set :: "'k \<Rightarrow> 'v \<Rightarrow> ('k \<times> 'v) list \<Rightarrow> ('k \<times> 'v) list" where
  "dict_set k v [] = [(k, v)]"
| "dict_set k v ((k', v') # d) = (if k' = k then (k, v) # d else (k', v') # dict_set k v d)"

fun dict_pop :: "'k \<Rightarrow> ('k \<times> 'v) list \<Rightarrow> ('k \<times> 'v) list" where
  "dict_pop k [] = []"
| "dict_pop k ((k', v') # d) = (if k' = k then dict_pop k d else (k', v') # dict_pop k d)"

definition dict_merge :: "('k \<times> 'v) list \<Rightarrow> ('k \<times> 'v) list \<Rightarrow> ('k \<times> 'v) list" where
  "dict_merge a b = fold (\<lambda>kv d. dict_set (fst kv) (snd kv) d) b a"

text \<open>\<open>k in d and d[k]\<close>: the key is present and its value is truthy.\<close>

definition present :: "pydict \<Rightarrow> string \<Rightarrow> bool" where
  "present d k = (case map_of d k of None \<Rightarrow> False | Some v \<Rightarrow> truthy v)"

text \<open>\<open>str.strip()\<close> on the ASCII whitespace characters.\<close>

definition is_space :: "char \<Rightarrow> bool" where
  "is_space c = (c \<in> set [CHR '' '', CHR 0x09, CHR 0x0A, CHR 0x0B, CHR 0x0C, CHR 0x0D])"

definition strip :: "string \<Rightarrow> string" where
  "strip s = rev (dropWhile is_space (rev (dropWhile is_space s)))"

text \<open>\<open>str(errors)\<close> for a list of strings, as interpolated by the f-strings of the service
  (the quoting that \<open>repr\<close> chooses for a string containing a quote is not modelled).\<close>

fun join_comma :: "string list \<Rightarrow> string" where
  "join_comma [] = []"
| "join_comma [s] = s"
| "join_comma (s # t # ss) = s @ '', '' @ join_comma (t # ss)"

definition str_of_list :: "string list \<Rightarrow> string" where
  "str_of_list ss = ''['' @ join_comma (map (\<lambda>s. [CHR 0x27] @ s @ [CHR 0x27]) ss) @ '']''"

text \<open>\<open>max(xs, key=f)\<close> on a non-empty list: the first element whose key is maximal.\<close>

fun max_by :: "('a \<Rightarrow> 'k::linorder) \<Rightarrow> 'a \<Rightarrow> 'a list \<Rightarrow> 'a" where
  "max_by key best [] = best"
| "max_by key best (x # xs) = max_by key (if key best < key x then x else best) xs"


section \<open>Exceptions\<close>

datatype exn =
    InvalidId
  | PyMongoError
  | KeyError
  | TypeError
  | AttributeError
  | CollaboratorError


section \<open>The document store\<close>

subsection \<open>Identifiers\<close>

text \<open>
  The value in the \<open>_id\<close> position of a document or of a query filter is either a BSON
  ObjectId (carried here by its 24-digit lower-case hexadecimal form) or a plain string.
  MongoDB compares them by type and value: an ObjectId never equals a string.
  \<open>ObjectId(s)\<close> raises \<open>InvalidId\<close> unless \<open>s\<close> is 24 hexadecimal digits, and
  \<open>str(ObjectId(s))\<close> is the lower-case form of \<open>s\<close>.
\<close>

datatype id_value = ObjectId string | IdStr string

fun str_id :: "id_value \<Rightarrow> string" where
  "str_id (ObjectId h) = h"
| "str_id (IdStr s) = s"

fun is_object_id :: "id_value \<Rightarrow> bool" where
  "is_object_id (ObjectId h) = True"
| "is_object_id (IdStr s) = False"

definition hex_digit :: "char \<Rightarrow> bool" where
  "hex_digit c = (c \<in> set ''0123456789abcdefABCDEF'')"

definition lower_hex :: "char \<Rightarrow> char" where
  "lower_hex c =
     (if c = CHR ''A'' then CHR ''a'' else if c = CHR ''B'' then CHR ''b''
      else if c = CHR ''C'' then CHR ''c'' else if c = CHR ''D'' then CHR ''d''
      else if c = CHR ''E'' then CHR ''e'' else if c = CHR ''F'' then CHR ''f'' else c)"

definition ObjectId_of :: "string \<Rightarrow> exn + id_value" where
  "ObjectId_of s =
     (if length s = 24 \<and> list_all hex_digit s then Inr (ObjectId (map lower_hex s))
      else Inl InvalidId)"

subsection \<open>Documents and collections\<close>

text \<open>
  A document of \<open>kyc_submissions\<close>.  The fields \<open>user_id\<close>, \<open>status\<close>, \<open>submission_date\<close> and
  \<open>verification_attempts\<close> are written by every insert (\<open>submit_kyc\<close> and
  \<open>create_kyc_submission\<close>), so they are plain fields; a key that the code tests with \<open>in\<close>
  or reads with \<open>.get\<close> is an option (\<open>None\<close>: the key is absent).  Times are seconds.
\<close>

record kyc_submission =
  doc_id :: id_value
  submission_id :: string
  user_id :: string
  personal_info :: "pydict option"
  identity_documents :: "pydict option"
  face_image :: "pyval option"
  additional_documents :: "pyval option"
  status :: string
  submission_date :: int
  verification_attempts :: nat
  status_updated_at :: "int option"
  admin_notes :: "string option"
  updated_at :: "int option"

record face_verification =
  fv_id :: id_value
  fv_user_id :: string
  fv_kyc_submission_id :: string
  fv_similarity_score :: real
  fv_verification_result :: bool
  fv_threshold_used :: real
  fv_verification_date :: int

record blockchain_transaction =
  bt_user_id :: string
  bt_kyc_id :: string
  bt_transaction_hash :: string
  bt_verification_status :: bool
  bt_admin_id :: string
  bt_recorded_at :: int

record database =
  kyc_collection :: "kyc_submission list"
  face_verification_collection :: "face_verification list"
  blockchain_collection :: "blockchain_transaction list"

text \<open>The pymongo calls the repository and the service make.  Which of them raise is
  given by the \<open>world\<close>; a call that raises leaves the store as it was.\<close>

datatype db_call = Find | FindOne | UpdateOne | InsertOne

text \<open>
  \<open>update_one(filter, {'$set': f})\<close>: the first document matching the filter is replaced;
  the first component is \<open>modified_count\<close>, which counts a matched document only when the
  update changed it.
\<close>

fun update_one :: "('a \<Rightarrow> bool) \<Rightarrow> ('a \<Rightarrow> 'a) \<Rightarrow> 'a list \<Rightarrow> nat \<times> 'a list" where
  "update_one p f [] = (0, [])"
| "update_one p f (x # xs) =
     (if p x then ((if f x = x then 0 else 1), f x # xs)
      else (fst (update_one p f xs), x # snd (update_one p f xs)))"


section \<open>Results\<close>

text \<open>Every service operation returns a dict; its values are the following.\<close>

datatype rval =
    RNone
  | RBool bool
  | RStr string
  | RNat nat
  | RFloat real
  | RTime int
  | RDoc kyc_submission

type_synonym result = "(string \<times> rval) list"

definition failure :: "string \<Rightarrow> result" where
  "failure msg = [(''success'', RBool False), (''message'', RStr msg)]"


section \<open>Collaborators\<close>

type_synonym image = "nat list list"

text \<open>A face rectangle \<open>(x, y, w, h)\<close> as the cascade classifier returns it.\<close>

type_synonym rect = "nat \<times> nat \<times> nat \<times> nat"

text \<open>
  What one call of a service operation receives from outside the repository's code: the
  clock, the identifiers generated by MongoDB and \<open>uuid4\<close>, which pymongo calls raise, the
  field validators of \<open>KYCValidators\<close> (regular expressions, date parsing, base64), the
  salted hash, the image codec, the cascade classifier, \<open>cv2.resize\<close>, the Laplacian variance,
  the Siamese model, and the blockchain service.  The blockchain service reads the database
  as it is when called and changes \<open>blockchain_transactions\<close> only (the second component is
  that collection afterwards); it returns a result (\<open>success\<close>, with the transaction hash
  or the message) or raises.
\<close>

record world =
  utcnow :: int
  new_object_id :: string
  uuid4 :: string
  raises :: "db_call \<Rightarrow> bool"
  validate_full_name :: "pyval \<Rightarrow> bool"
  validate_email :: "pyval \<Rightarrow> bool"
  validate_phone_number :: "pyval \<Rightarrow> bool"
  validate_date_of_birth :: "pyval \<Rightarrow> bool"
  validate_gender :: "pyval \<Rightarrow> bool"
  validate_nationality :: "pyval \<Rightarrow> bool"
  validate_document_number :: "pyval \<Rightarrow> pyval \<Rightarrow> bool"
  validate_address :: "pydict \<Rightarrow> bool"
  validate_base64_image :: "pyval \<Rightarrow> bool"
  hash_sensitive_data :: "pyval \<Rightarrow> string"
  b64_image :: "string \<Rightarrow> image option"
  detectMultiScale :: "image \<Rightarrow> exn + rect list"
  cv2_resize :: "image \<Rightarrow> exn + image"
  laplacian_var :: "image \<Rightarrow> exn + real"
  compare_faces :: "image \<Rightarrow> image \<Rightarrow> exn + real option"
  store_kyc_verification ::
    "string \<Rightarrow> string \<Rightarrow> bool \<Rightarrow> string \<Rightarrow> database
       \<Rightarrow> (exn + bool \<times> string) \<times> blockchain_transaction list"


section \<open>KYCRepository\<close>

text \<open>\<open>kyc['_id'] = str(kyc['_id'])\<close>, done by every getter on the documents it returns.\<close>

definition stringify_id :: "kyc_submission \<Rightarrow> kyc_submission" where
  "stringify_id kyc = kyc\<lparr>doc_id := IdStr (str_id (doc_id kyc))\<rparr>"

text \<open>\<open>create_kyc_submission\<close> re-raises a failed insert.\<close>

definition create_kyc_submission ::
    "world \<Rightarrow> database \<Rightarrow> kyc_submission \<Rightarrow> exn + string \<times> database" where
  "create_kyc_submission w db kyc_data =
     (let kyc = kyc_data\<lparr>submission_date := utcnow w, status := ''pending'',
                         verification_attempts := 0\<rparr>
      in if raises w InsertOne then Inl PyMongoError
         else Inr (new_object_id w,
                   db\<lparr>kyc_collection :=
                        kyc_collection db @ [kyc\<lparr>doc_id := ObjectId (new_object_id w)\<rparr>]\<rparr>))"

text \<open>\<open>get_kyc_submission_by_id\<close> returns \<open>None\<close> on any exception, also on an invalid id.\<close>

definition get_kyc_submission_by_id ::
    "world \<Rightarrow> database \<Rightarrow> string \<Rightarrow> kyc_submission option" where
  "get_kyc_submission_by_id w db kyc_id =
     (case ObjectId_of kyc_id of
        Inl e \<Rightarrow> None
      | Inr oid \<Rightarrow>
          if raises w FindOne then None
          else (case find (\<lambda>k. doc_id k = oid) (kyc_collection db) of
                  None \<Rightarrow> None
                | Some kyc \<Rightarrow> Some (stringify_id kyc)))"

text \<open>\<open>get_kyc_submissions_by_user\<close> returns the empty list on any exception; the cursor has
  no sort, so the documents come in the collection's own order.\<close>

definition get_kyc_submissions_by_user ::
    "world \<Rightarrow> database \<Rightarrow> string \<Rightarrow> kyc_submission list" where
  "get_kyc_submissions_by_user w db uid =
     (if raises w Find then []
      else map stringify_id (filter (\<lambda>k. user_id k = uid) (kyc_collection db)))"

text \<open>\<open>update_kyc_status\<close> returns \<open>False\<close> on any exception; \<open>admin_notes\<close> is stored only when
  it is a non-empty string.\<close>

definition set_status :: "world \<Rightarrow> string \<Rightarrow> string option \<Rightarrow> kyc_submission \<Rightarrow> kyc_submission" where
  "set_status w st notes kyc =
     (let kyc' = kyc\<lparr>status := st, status_updated_at := Some (utcnow w)\<rparr>
      in case notes of
           None \<Rightarrow> kyc'
         | Some n \<Rightarrow> if n \<noteq> [] then kyc'\<lparr>admin_notes := Some n\<rparr> else kyc')"

definition update_kyc_status ::
    "world \<Rightarrow> database \<Rightarrow> string \<Rightarrow> string \<Rightarrow> string option \<Rightarrow> bool \<times> database" where
  "update_kyc_status w db kyc_id st notes =
     (case ObjectId_of kyc_id of
        Inl e \<Rightarrow> (False, db)
      | Inr oid \<Rightarrow>
          if raises w UpdateOne then (False, db)
          else (let r = update_one (\<lambda>k. doc_id k = oid) (set_status w st notes) (kyc_collection db)
                in (0 < fst r, db\<lparr>kyc_collection := snd r\<rparr>)))"

text \<open>\<open>create_face_verification\<close> re-raises a failed insert.\<close>

definition create_face_verification ::
    "world \<Rightarrow> database \<Rightarrow> face_verification \<Rightarrow> exn + string \<times> database" where
  "create_face_verification w db verification_data =
     (let v = verification_data\<lparr>fv_verification_date := utcnow w\<rparr>
      in if raises w InsertOne then Inl PyMongoError
         else Inr (new_object_id w,
                   db\<lparr>face_verification_collection :=
                        face_verification_collection db @ [v\<lparr>fv_id := ObjectId (new_object_id w)\<rparr>]\<rparr>))"


section \<open>Validators\<close>

definition required_fields :: "string list" where
  "required_fields = [''full_name'', ''date_of_birth'', ''gender'', ''nationality'',
     ''address'', ''phone_number'', ''email'', ''document_type'', ''document_number'']"

definition check_field :: "pydict \<Rightarrow> string \<Rightarrow> (pyval \<Rightarrow> bool) \<Rightarrow> string \<Rightarrow> string list" where
  "check_field d k ok msg = (if present d k \<and> \<not> ok (dict_get d k) then [msg] else [])"

definition check_address :: "world \<Rightarrow> pydict \<Rightarrow> string list" where
  "check_address w d =
     (if present d ''address'' then
        (case dict_get d ''address'' of
           PDict a \<Rightarrow> if \<not> validate_address w a then [''Invalid address information''] else []
         | PStr s \<Rightarrow> if length (strip s) < 10 then [''Address too short''] else []
         | _ \<Rightarrow> [])
      else [])"

text \<open>\<open>validate_kyc_data(kyc_data, partial)\<close>: the pair \<open>(valid, errors)\<close>.\<close>

definition validate_kyc_data :: "world \<Rightarrow> pydict \<Rightarrow> bool \<Rightarrow> bool \<times> string list" where
  "validate_kyc_data w d partial =
     (let errors =
        (if \<not> partial
         then map (\<lambda>f. ''Missing required field: '' @ f)
                  (filter (\<lambda>f. \<not> present d f) required_fields)
         else [])
        @ check_field d ''full_name'' (validate_full_name w) ''Invalid full name format''
        @ check_field d ''email'' (validate_email w) ''Invalid email format''
        @ check_field d ''phone_number'' (validate_phone_number w) ''Invalid phone number format''
        @ check_field d ''date_of_birth'' (validate_date_of_birth w) ''Invalid date of birth''
        @ check_field d ''gender'' (validate_gender w) ''Invalid gender value''
        @ check_field d ''nationality'' (validate_nationality w) ''Invalid nationality''
        @ check_field d ''document_number''
            (\<lambda>n. validate_document_number w n
                    (dict_get_default d ''document_type'' (PStr ''national_id'')))
            ''Invalid document number format''
        @ check_address w d
        @ check_field d ''face_image'' (validate_base64_image w) ''Invalid face image data''
        @ check_field d ''document_image'' (validate_base64_image w)
            ''Invalid document image data''
        @ check_field d ''document_back_image'' (validate_base64_image w)
            ''Invalid document back image data''
      in (errors = [], errors))"


section \<open>FaceVerificationService\<close>

text \<open>\<open>Config.FACE_VERIFICATION_THRESHOLD\<close>, read once into \<open>self.verification_threshold\<close>.\<close>

definition verification_threshold :: real where
  "verification_threshold = 0.6"

text \<open>
  \<open>_decode_base64_image\<close>: any exception gives \<open>None\<close>; a value that is not a string raises
  inside the \<open>try\<close>.  \<open>b64_image\<close> stands for the data-URL prefix removal, the base64
  decoding and the image codec together.
\<close>

definition decode_base64_image :: "world \<Rightarrow> pyval \<Rightarrow> image option" where
  "decode_base64_image w v = (case v of PStr s \<Rightarrow> b64_image w s | _ \<Rightarrow> None)"

text \<open>\<open>image_array[y:y+h, x:x+w]\<close>.\<close>

definition crop :: "image \<Rightarrow> rect \<Rightarrow> image" where
  "crop img r = (case r of (x, y, w, h) \<Rightarrow> map (\<lambda>row. take w (drop x row)) (take h (drop y img)))"

text \<open>The key of \<open>max(faces, key=lambda x: x[2] * x[3])\<close>.\<close>

definition area :: "rect \<Rightarrow> nat" where
  "area r = (case r of (x, y, w, h) \<Rightarrow> w * h)"

text \<open>\<open>_detect_face\<close>: \<open>None\<close> when no face is found and on any exception.\<close>

definition detect_face :: "world \<Rightarrow> image \<Rightarrow> image option" where
  "detect_face w image_array =
     (case detectMultiScale w image_array of
        Inl e \<Rightarrow> None
      | Inr [] \<Rightarrow> None
      | Inr (f # fs) \<Rightarrow> Some (crop image_array (max_by area f fs)))"

text \<open>\<open>_preprocess_face\<close>: \<open>None\<close> on any exception (the division of the pixel values by 255
  is left to the model collaborator).\<close>

definition preprocess_face :: "world \<Rightarrow> image \<Rightarrow> image option" where
  "preprocess_face w face_array =
     (case cv2_resize w face_array of Inl e \<Rightarrow> None | Inr face_resized \<Rightarrow> Some face_resized)"

definition faces_failure :: "string \<Rightarrow> result" where
  "faces_failure msg =
     [(''success'', RBool False), (''message'', RStr msg),
      (''similarity_score'', RFloat 0), (''is_same_person'', RBool False)]"

definition verify_faces :: "world \<Rightarrow> image \<Rightarrow> image \<Rightarrow> result" where
  "verify_faces w image1_array image2_array =
     (let face1 = detect_face w image1_array;
          face2 = detect_face w image2_array
      in case face1 of
           None \<Rightarrow> faces_failure ''No face detected in first image''
         | Some f1 \<Rightarrow>
           (case face2 of
              None \<Rightarrow> faces_failure ''No face detected in second image''
            | Some f2 \<Rightarrow>
              (case (preprocess_face w f1, preprocess_face w f2) of
                 (Some p1, Some p2) \<Rightarrow>
                   (case compare_faces w p1 p2 of
                      Inl e \<Rightarrow> faces_failure ''Face verification failed due to system error''
                    | Inr None \<Rightarrow> faces_failure ''Face comparison failed''
                    | Inr (Some similarity_score) \<Rightarrow>
                        [(''success'', RBool True),
                         (''message'', RStr ''Face verification completed successfully''),
                         (''similarity_score'', RFloat similarity_score),
                         (''is_same_person'', RBool (verification_threshold < similarity_score)),
                         (''threshold_used'', RFloat verification_threshold)])
               | _ \<Rightarrow> faces_failure ''Failed to preprocess faces'')))"

definition stored_failure :: "string \<Rightarrow> result" where
  "stored_failure msg =
     [(''success'', RBool False), (''message'', RStr msg), (''similarity_score'', RFloat 0)]"

text \<open>The body of the \<open>try\<close> of \<open>verify_face_with_stored_image\<close>: \<open>Inl\<close> is an exception on its
  way to the handler.  The record handed to the repository has no \<open>_id\<close> and no
  \<open>verification_date\<close> yet; \<open>fv_id\<close> and \<open>fv_verification_date\<close> hold placeholders that the
  insert overwrites.\<close>

definition verify_face_with_stored_image_body ::
    "world \<Rightarrow> database \<Rightarrow> string \<Rightarrow> pyval \<Rightarrow> exn + result \<times> database" where
  "verify_face_with_stored_image_body w db uid live_image =
     (let kyc_submissions = get_kyc_submissions_by_user w db uid
      in if kyc_submissions = [] then
           Inr (stored_failure ''No KYC submission found for user'', db)
         else
           (case find (\<lambda>kyc. status kyc = ''approved'') kyc_submissions of
              None \<Rightarrow>
                Inr (stored_failure ''No approved KYC submission with face image found'', db)
            | Some approved_kyc \<Rightarrow>
              (case face_image approved_kyc of
                 None \<Rightarrow>
                   Inr (stored_failure ''No approved KYC submission with face image found'', db)
               | Some stored \<Rightarrow>
                 (case (decode_base64_image w live_image, decode_base64_image w stored) of
                    (Some live_image_array, Some stored_image_array) \<Rightarrow>
                      (let result = verify_faces w live_image_array stored_image_array
                       in case (map_of result ''similarity_score'',
                                map_of result ''is_same_person'') of
                            (Some (RFloat score), Some (RBool same)) \<Rightarrow>
                              (case create_face_verification w db
                                      \<lparr>fv_id = IdStr [], fv_user_id = uid,
                                       fv_kyc_submission_id = str_id (doc_id approved_kyc),
                                       fv_similarity_score = score,
                                       fv_verification_result = same,
                                       fv_threshold_used = verification_threshold,
                                       fv_verification_date = 0\<rparr> of
                                 Inl e \<Rightarrow> Inl e
                               | Inr created \<Rightarrow> Inr (result, snd created))
                          | _ \<Rightarrow> Inl KeyError)
                  | _ \<Rightarrow> Inr (stored_failure ''Failed to decode images'', db)))))"

definition verify_face_with_stored_image ::
    "world \<Rightarrow> database \<Rightarrow> string \<Rightarrow> pyval \<Rightarrow> result \<times> database" where
  "verify_face_with_stored_image w db uid live_image =
     (case verify_face_with_stored_image_body w db uid live_image of
        Inl e \<Rightarrow> (stored_failure ''Face verification failed due to system error'', db)
      | Inr r \<Rightarrow> r)"

text \<open>\<open>validate_image_quality\<close>: the pair \<open>(valid, message)\<close>; \<open>shape[:2]\<close> is (height, width).\<close>

definition img_width :: "image \<Rightarrow> nat" where
  "img_width img = (case img of [] \<Rightarrow> 0 | row # _ \<Rightarrow> length row)"

definition validate_image_quality :: "world \<Rightarrow> pyval \<Rightarrow> bool \<times> string" where
  "validate_image_quality w image_data =
     (case decode_base64_image w image_data of
        None \<Rightarrow> (False, ''Failed to decode image'')
      | Some image_array \<Rightarrow>
          if length image_array < 100 \<or> img_width image_array < 100 then
            (False, ''Image resolution too low (minimum 100x100 pixels)'')
          else
            (case detect_face w image_array of
               None \<Rightarrow> (False, ''No face detected in image'')
             | Some face_array \<Rightarrow>
                 if length face_array < 50 \<or> img_width face_array < 50 then
                   (False, ''Detected face is too small'')
                 else
                   (case laplacian_var w image_array of
                      Inl e \<Rightarrow> (False, ''Image quality validation failed'')
                    | Inr blur_value \<Rightarrow>
                        if blur_value < 100 then (False, ''Image appears to be blurry'')
                        else (True, ''Image quality is acceptable''))))"


section \<open>KYCService\<close>

definition active_statuses :: "string list" where
  "active_statuses = [''pending'', ''approved'']"

text \<open>The face image check shared by \<open>submit_kyc\<close> and \<open>update_kyc_submission\<close>: made only
  when the payload has the key.\<close>

definition face_image_check :: "world \<Rightarrow> pydict \<Rightarrow> bool \<times> string" where
  "face_image_check w d =
     (if has_key d ''face_image'' then validate_image_quality w (dict_get d ''face_image'')
      else (True, []))"

text \<open>The document \<open>submit_kyc\<close> prepares.  It has no \<open>_id\<close> key before the insert; \<open>doc_id\<close>
  holds a placeholder that the insert overwrites with the generated ObjectId.\<close>

definition submission_data :: "world \<Rightarrow> string \<Rightarrow> pydict \<Rightarrow> kyc_submission" where
  "submission_data w uid kyc_data =
     \<lparr>doc_id = IdStr [],
      submission_id = uuid4 w,
      user_id = uid,
      personal_info = Some
        [(''full_name'', dict_get kyc_data ''full_name''),
         (''date_of_birth'', dict_get kyc_data ''date_of_birth''),
         (''gender'', dict_get kyc_data ''gender''),
         (''nationality'', dict_get kyc_data ''nationality''),
         (''address'', dict_get kyc_data ''address''),
         (''phone_number'', dict_get kyc_data ''phone_number''),
         (''email'', dict_get kyc_data ''email'')],
      identity_documents = Some
        [(''document_type'', dict_get kyc_data ''document_type''),
         (''document_number'',
            PStr (hash_sensitive_data w
                    (dict_get_default kyc_data ''document_number'' (PStr [])))),
         (''document_image'', dict_get kyc_data ''document_image''),
         (''document_back_image'', dict_get kyc_data ''document_back_image'')],
      face_image = Some (dict_get kyc_data ''face_image''),
      additional_documents = Some (dict_get_default kyc_data ''additional_documents'' (PList [])),
      status = ''pending'',
      submission_date = utcnow w,
      verification_attempts = 0,
      status_updated_at = None,
      admin_notes = None,
      updated_at = None\<rparr>"

definition submit_kyc_body ::
    "world \<Rightarrow> database \<Rightarrow> string \<Rightarrow> pydict \<Rightarrow> exn + result \<times> database" where
  "submit_kyc_body w db uid kyc_data =
     (let validation_result = validate_kyc_data w kyc_data False
      in if \<not> fst validation_result then
           Inr (failure (''Validation failed: '' @ str_of_list (snd validation_result)), db)
         else
           (case find (\<lambda>kyc. status kyc \<in> set active_statuses)
                      (get_kyc_submissions_by_user w db uid) of
              Some kyc \<Rightarrow>
                Inr (failure (''User already has '' @ status kyc @ '' KYC submission''), db)
            | None \<Rightarrow>
                (let image_validation = face_image_check w kyc_data
                 in if \<not> fst image_validation then
                      Inr (failure (''Face image validation failed: '' @ snd image_validation), db)
                    else
                      (case create_kyc_submission w db (submission_data w uid kyc_data) of
                         Inl e \<Rightarrow> Inl e
                       | Inr created \<Rightarrow>
                           Inr ([(''success'', RBool True),
                                 (''message'', RStr ''KYC submission created successfully''),
                                 (''kyc_id'', RStr (fst created)),
                                 (''submission_id'', RStr (uuid4 w)),
                                 (''status'', RStr ''pending'')],
                                snd created)))))"

definition submit_kyc :: "world \<Rightarrow> database \<Rightarrow> string \<Rightarrow> pydict \<Rightarrow> result \<times> database" where
  "submit_kyc w db uid kyc_data =
     (case submit_kyc_body w db uid kyc_data of
        Inl e \<Rightarrow> (failure ''KYC submission failed due to system error'', db)
      | Inr r \<Rightarrow> r)"

definition opt_time :: "int option \<Rightarrow> rval" where
  "opt_time t = (case t of None \<Rightarrow> RNone | Some x \<Rightarrow> RTime x)"

definition opt_str :: "string option \<Rightarrow> rval" where
  "opt_str s = (case s of None \<Rightarrow> RNone | Some x \<Rightarrow> RStr x)"

text \<open>\<open>get_kyc_status\<close>: every key the body reads is a plain field of the document, so no
  step of the body raises and the handler is not reached.\<close>

definition get_kyc_status :: "world \<Rightarrow> database \<Rightarrow> string \<Rightarrow> result" where
  "get_kyc_status w db uid =
     (case get_kyc_submissions_by_user w db uid of
        [] \<Rightarrow>
          [(''success'', RBool True), (''status'', RStr ''not_submitted''),
           (''message'', RStr ''No KYC submission found'')]
      | kyc # kycs \<Rightarrow>
          (let latest_kyc = max_by submission_date kyc kycs
           in [(''success'', RBool True),
               (''status'', RStr (status latest_kyc)),
               (''kyc_id'', RStr (str_id (doc_id latest_kyc))),
               (''submission_date'', RTime (submission_date latest_kyc)),
               (''last_updated'', opt_time (status_updated_at latest_kyc)),
               (''admin_notes'', opt_str (admin_notes latest_kyc)),
               (''verification_attempts'', RNat (verification_attempts latest_kyc))]))"

definition decisions :: "string list" where
  "decisions = [''approved'', ''rejected'']"

text \<open>
  \<open>verify_kyc_submission\<close>.  The repository calls catch their own exceptions and the
  blockchain call sits in a \<open>try\<close> of its own whose handler only logs, so whatever the
  blockchain service returns or raises, the operation goes on to the success result; its
  only effect is what it appended to \<open>blockchain_transactions\<close>.
\<close>

definition verify_kyc_submission ::
    "world \<Rightarrow> database \<Rightarrow> string \<Rightarrow> string \<Rightarrow> string \<Rightarrow> string option \<Rightarrow> result \<times> database" where
  "verify_kyc_submission w db kyc_id admin_id decision notes =
     (if decision \<notin> set decisions then
        (failure (''Invalid decision. Must be '' @ [CHR 0x22] @ ''approved'' @ [CHR 0x22]
                  @ '' or '' @ [CHR 0x22] @ ''rejected'' @ [CHR 0x22]), db)
      else
        (case get_kyc_submission_by_id w db kyc_id of
           None \<Rightarrow> (failure ''KYC submission not found'', db)
         | Some kyc \<Rightarrow>
             if status kyc \<noteq> ''pending'' then
               (failure (''KYC submission is already '' @ status kyc), db)
             else
               (let notes_text = ''Verified by admin '' @ admin_id @ ''. ''
                                 @ (case notes of None \<Rightarrow> [] | Some n \<Rightarrow> n);
                    updated = update_kyc_status w db kyc_id decision (Some notes_text)
                in if \<not> fst updated then (failure ''Failed to update KYC status'', snd updated)
                   else
                     ([(''success'', RBool True),
                       (''message'', RStr (''KYC submission '' @ decision @ '' successfully'')),
                       (''status'', RStr decision),
                       (''admin_notes'', RStr notes_text)],
                      if decision = ''approved'' then
                        (snd updated)\<lparr>blockchain_collection :=
                           snd (store_kyc_verification w (user_id kyc) kyc_id True admin_id
                                  (snd updated))\<rparr>
                      else snd updated))))"

text \<open>\<open>{**kyc_submission.get(key, {}), **update_data[key]}\<close>, when \<open>update_data\<close> has the key;
  unpacking a value that is not a dict raises \<open>TypeError\<close>.\<close>

definition merged_field :: "pydict option \<Rightarrow> pydict \<Rightarrow> string \<Rightarrow> exn + pydict option" where
  "merged_field old update_data key =
     (case map_of update_data key of
        None \<Rightarrow> Inr old
      | Some (PDict d) \<Rightarrow> Inr (Some (dict_merge (case old of None \<Rightarrow> [] | Some od \<Rightarrow> od) d))
      | Some _ \<Rightarrow> Inl TypeError)"

definition replaced_field :: "pyval option \<Rightarrow> pydict \<Rightarrow> string \<Rightarrow> pyval option" where
  "replaced_field old update_data key =
     (if has_key update_data key then Some (dict_get update_data key) else old)"

text \<open>The \<open>$set\<close> of \<open>update_kyc_submission\<close>, with the merged dicts computed from the
  document that was read.\<close>

definition set_update_fields ::
    "world \<Rightarrow> pydict option \<Rightarrow> pydict option \<Rightarrow> pydict \<Rightarrow> kyc_submission \<Rightarrow> kyc_submission" where
  "set_update_fields w pinfo idocs update_data kyc =
     kyc\<lparr>status := ''pending'',
         updated_at := Some (utcnow w),
         personal_info := (if has_key update_data ''personal_info'' then pinfo
                           else personal_info kyc),
         identity_documents := (if has_key update_data ''identity_documents'' then idocs
                                else identity_documents kyc),
         face_image := replaced_field (face_image kyc) update_data ''face_image'',
         additional_documents :=
           replaced_field (additional_documents kyc) update_data ''additional_documents''\<rparr>"

text \<open>
  The body of the \<open>try\<close> of \<open>update_kyc_submission\<close>.  The filter of its \<open>update_one\<close> is
  \<open>{'_id': kyc_submission['_id']}\<close>, the \<open>_id\<close> of the document as the getter returned it.
\<close>

definition update_kyc_submission_body ::
    "world \<Rightarrow> database \<Rightarrow> string \<Rightarrow> string \<Rightarrow> pydict \<Rightarrow> exn + result \<times> database" where
  "update_kyc_submission_body w db kyc_id uid update_data =
     (case get_kyc_submission_by_id w db kyc_id of
        None \<Rightarrow> Inr (failure ''KYC submission not found'', db)
      | Some kyc \<Rightarrow>
          if user_id kyc \<noteq> uid then
            Inr (failure ''Access denied: KYC submission belongs to different user'', db)
          else if status kyc \<notin> set [''pending'', ''rejected''] then
            Inr (failure (''Cannot update '' @ status kyc @ '' KYC submission''), db)
          else
            (let validation_result = validate_kyc_data w update_data True
             in if \<not> fst validation_result then
                  Inr (failure (''Validation failed: '' @ str_of_list (snd validation_result)), db)
                else
                  (let image_validation = face_image_check w update_data
                   in if \<not> fst image_validation then
                        Inr (failure (''Face image validation failed: ''
                                      @ snd image_validation), db)
                      else
                        (case merged_field (personal_info kyc) update_data ''personal_info'' of
                           Inl e \<Rightarrow> Inl e
                         | Inr pinfo \<Rightarrow>
                           (case merged_field (identity_documents kyc) update_data
                                   ''identity_documents'' of
                              Inl e \<Rightarrow> Inl e
                            | Inr idocs \<Rightarrow>
                                if raises w UpdateOne then Inl PyMongoError
                                else
                                  (let r = update_one (\<lambda>k. doc_id k = doc_id kyc)
                                             (set_update_fields w pinfo idocs update_data)
                                             (kyc_collection db)
                                   in if 0 < fst r then
                                        Inr ([(''success'', RBool True),
                                              (''message'',
                                                 RStr ''KYC submission updated successfully''),
                                              (''status'', RStr ''pending'')],
                                             db\<lparr>kyc_collection := snd r\<rparr>)
                                      else
                                        Inr (failure ''No changes were made to KYC submission'',
                                             db\<lparr>kyc_collection := snd r\<rparr>)))))))"

definition update_kyc_submission ::
    "world \<Rightarrow> database \<Rightarrow> string \<Rightarrow> string \<Rightarrow> pydict \<Rightarrow> result \<times> database" where
  "update_kyc_submission w db kyc_id uid update_data =
     (case update_kyc_submission_body w db kyc_id uid update_data of
        Inl e \<Rightarrow> (failure ''KYC update failed due to system error'', db)
      | Inr r \<Rightarrow> r)"

text \<open>\<open>get_kyc_details\<close>; \<open>user_id\<close> defaults to \<open>None\<close>.  The document is the copy the getter
  returned, so the two \<open>pop\<close>s change the answer only.\<close>

definition get_kyc_details :: "world \<Rightarrow> database \<Rightarrow> string \<Rightarrow> string option \<Rightarrow> bool \<Rightarrow> result" where
  "get_kyc_details w db kyc_id uid admin =
     (case get_kyc_submission_by_id w db kyc_id of
        None \<Rightarrow> failure ''KYC submission not found''
      | Some kyc \<Rightarrow>
          if \<not> admin \<and> (case uid of None \<Rightarrow> False | Some u \<Rightarrow> u \<noteq> [] \<and> user_id kyc \<noteq> u) then
            failure ''Access denied''
          else if \<not> admin then
            [(''success'', RBool True),
             (''kyc_submission'',
                RDoc (kyc\<lparr>identity_documents :=
                            map_option (dict_pop ''document_number'') (identity_documents kyc),
                          admin_notes := None\<rparr>))]
          else
            [(''success'', RBool True), (''kyc_submission'', RDoc kyc)])"

text \<open>\<open>perform_face_verification\<close> returns what the face verification service returns, which
  has its own handler.\<close>

definition perform_face_verification ::
    "world \<Rightarrow> database \<Rightarrow> string \<Rightarrow> pyval \<Rightarrow> result \<times> database" where
  "perform_face_verification w db uid live_image =
     verify_face_with_stored_image w db uid live_image"


section \<open>States the service can reach\<close>

text \<open>The submissions of a user that are \<open>pending\<close> or \<open>approved\<close>.\<close>

definition active_submissions :: "database \<Rightarrow> string \<Rightarrow> kyc_submission list" where
  "active_submissions db uid =
     filter (\<lambda>kyc. user_id kyc = uid \<and> status kyc \<in> set active_statuses) (kyc_collection db)"

text \<open>
  The databases that sequences of service calls produce from the empty store, one call
  running to completion before the next.  The collaborators of every call are arbitrary,
  except that the lookup of a \<open>submit_kyc\<close> call does not raise: the repository answers a
  failed lookup with the empty list, and the service then goes on to insert.
\<close>

inductive reachable :: "database \<Rightarrow> bool" where
  start:
    "reachable \<lparr>kyc_collection = [], face_verification_collection = [],
                 blockchain_collection = []\<rparr>"
| submit:
    "reachable db \<Longrightarrow> \<not> raises w Find \<Longrightarrow> reachable (snd (submit_kyc w db uid kyc_data))"
| decide:
    "reachable db \<Longrightarrow>
       reachable (snd (verify_kyc_submission w db kyc_id admin_id decision notes))"
| update:
    "reachable db \<Longrightarrow> reachable (snd (update_kyc_submission w db kyc_id uid update_data))"
| face:
    "reachable db \<Longrightarrow> reachable (snd (perform_face_verification w db uid live_image))"


text \<open>Every stored submission carries an ObjectId, as MongoDB assigns to a document
  inserted without \<open>_id\<close>.\<close>

definition object_ids :: "database \<Rightarrow> bool" where
  "object_ids db = list_all (\<lambda>k. is_object_id (doc_id k)) (kyc_collection db)"


section \<open>Scenarios\<close>

text \<open>
  Concrete collaborators and documents on which the theorems below are exercised.  In
  \<open>test_world\<close> no pymongo call raises, every validator accepts, every image shows one face
  in its top left pixel, the model scores a comparison against the face \<open>[[5]]\<close> with 0.9
  and any other with 0.3, and the blockchain service raises.
\<close>

definition test_world :: world where
  "test_world =
     \<lparr>utcnow = 1000,
      new_object_id = ''0000000000000000000000bb'',
      uuid4 = ''uuid-bb'',
      raises = (\<lambda>c. False),
      validate_full_name = (\<lambda>v. True),
      validate_email = (\<lambda>v. True),
      validate_phone_number = (\<lambda>v. True),
      validate_date_of_birth = (\<lambda>v. True),
      validate_gender = (\<lambda>v. True),
      validate_nationality = (\<lambda>v. True),
      validate_document_number = (\<lambda>n t. True),
      validate_address = (\<lambda>a. True),
      validate_base64_image = (\<lambda>v. True),
      hash_sensitive_data = (\<lambda>v. ''hash:salt''),
      b64_image = (\<lambda>s. if s = ''live'' then Some [[2, 3], [4, 6]]
                        else if s = ''old'' then Some [[5, 6], [7, 8]]
                        else if s = ''new'' then Some [[9, 9], [9, 9]] else None),
      detectMultiScale = (\<lambda>img. Inr [(0, 0, 1, 1)]),
      cv2_resize = (\<lambda>img. Inr img),
      laplacian_var = (\<lambda>img. Inr 150),
      compare_faces = (\<lambda>a b. Inr (Some (if b = [[5]] then 0.9 else 0.3))),
      store_kyc_verification =
        (\<lambda>u k s a db. (Inl CollaboratorError, blockchain_collection db))\<rparr>"

text \<open>A stored submission with the given ObjectId, owner, status, submission date and face
  image.\<close>

definition stored_submission ::
    "string \<Rightarrow> string \<Rightarrow> string \<Rightarrow> int \<Rightarrow> string \<Rightarrow> kyc_submission" where
  "stored_submission oid uid st date img =
     \<lparr>doc_id = ObjectId oid, submission_id = ''uuid-'' @ oid, user_id = uid,
      personal_info = Some [(''full_name'', PStr ''Ada Lovelace'')],
      identity_documents = Some [(''document_type'', PStr ''passport''),
                                 (''document_number'', PStr ''hash:salt'')],
      face_image = Some (PStr img), additional_documents = Some (PList []),
      status = st, submission_date = date, verification_attempts = 0,
      status_updated_at = None, admin_notes = Some ''seen'', updated_at = None\<rparr>"

definition db_of :: "kyc_submission list \<Rightarrow> database" where
  "db_of ks =
     \<lparr>kyc_collection = ks, face_verification_collection = [], blockchain_collection = []\<rparr>"

definition id_a :: string where
  "id_a = ''0000000000000000000000a1''"

definition id_b :: string where
  "id_b = ''0000000000000000000000a2''"


text \<open>As \<open>test_world\<close>, but the classifier finds two faces in the image \<open>live\<close> and none in
  the image \<open>old\<close>.\<close>

definition crowd_world :: world where
  "crowd_world =
     test_world\<lparr>detectMultiScale :=
       (\<lambda>img. if img = [[2, 3], [4, 6]] then Inr [(0, 0, 1, 1), (0, 0, 2, 2)]
              else if img = [[5, 6], [7, 8]] then Inr []
              else Inr [(0, 0, 1, 1)])\<rparr>"

text \<open>As \<open>test_world\<close>, but every insert raises.\<close>

definition readonly_world :: world where
  "readonly_world = test_world\<lparr>raises := (\<lambda>c. c = InsertOne)\<rparr>"


text \<open>A payload with every required field.\<close>

definition complete_payload :: pydict where
  "complete_payload =
     [(''full_name'', PStr ''Ada Lovelace''),
      (''date_of_birth'', PStr ''1815-12-10''),
      (''gender'', PStr ''female''),
      (''nationality'', PStr ''British''),
      (''address'', PStr ''12 St James Square, London''),
      (''phone_number'', PStr ''+441234567890''),
      (''email'', PStr ''ada@example.org''),
      (''document_type'', PStr ''passport''),
      (''document_number'', PStr ''AB123456'')]"


text \<open>
  A history of the service.  In \<open>studio_world\<close> the images are 100 by 100 pixels of one
  value, the classifier finds one face of 60 by 60 pixels, and the model scores a
  comparison against the face of the image \<open>old\<close> with 0.9 and any other with 0.3.
  \<open>faulty_world\<close> is a later moment at which the lookup raises.
\<close>

definition studio_world :: world where
  "studio_world =
     test_world\<lparr>b64_image :=
         (\<lambda>s. if s = ''live'' then Some (replicate 100 (replicate 100 2))
              else if s = ''old'' then Some (replicate 100 (replicate 100 5))
              else if s = ''new'' then Some (replicate 100 (replicate 100 9)) else None),
       detectMultiScale := (\<lambda>img. Inr [(0, 0, 60, 60)]),
       compare_faces :=
         (\<lambda>a b. Inr (Some (if b = replicate 60 (replicate 60 5) then 0.9 else 0.3))),
       new_object_id := id_a\<rparr>"

definition faulty_world :: world where
  "faulty_world =
     studio_world\<lparr>raises := (\<lambda>c. c = Find), new_object_id := id_b, utcnow := 2000\<rparr>"

text \<open>The documents that \<open>submit_kyc\<close> inserts for the payloads with the face image \<open>old\<close>
  (in \<open>studio_world\<close>) and \<open>new\<close> (in \<open>faulty_world\<close>), with the given status, and what an
  approval by the admin \<open>root\<close> in \<open>studio_world\<close> makes of a document.\<close>

definition first_submission :: "string \<Rightarrow> kyc_submission" where
  "first_submission st =
     (submission_data studio_world ''alice''
        (complete_payload @ [(''face_image'', PStr ''old'')]))
       \<lparr>doc_id := ObjectId id_a, status := st\<rparr>"

definition second_submission :: "string \<Rightarrow> kyc_submission" where
  "second_submission st =
     (submission_data faulty_world ''alice''
        (complete_payload @ [(''face_image'', PStr ''new'')]))
       \<lparr>doc_id := ObjectId id_b, status := st\<rparr>"

definition approved_by_root :: "kyc_submission \<Rightarrow> kyc_submission" where
  "approved_by_root kyc =
     kyc\<lparr>status := ''approved'', status_updated_at := Some 1000,
         admin_notes := Some ''Verified by admin root. ''\<rparr>"

text \<open>Alice submits and is approved; she submits again at a moment when the lookup raises,
  and is approved again.\<close>

definition two_approvals :: database where
  "two_approvals =
     snd (verify_kyc_submission studio_world
       (snd (submit_kyc faulty_world
          (snd (verify_kyc_submission studio_world
             (snd (submit_kyc studio_world (db_of []) ''alice''
                     (complete_payload @ [(''face_image'', PStr ''old'')])))
             id_a ''root'' ''approved'' None))
          ''alice'' (complete_payload @ [(''face_image'', PStr ''new'')])))
       id_b ''root'' ''approved'' None)"

text \<open>Alice submits and is approved.\<close>

definition one_approval :: database where
  "one_approval =
     snd (verify_kyc_submission studio_world
       (snd (submit_kyc studio_world (db_of []) ''alice''
               (complete_payload @ [(''face_image'', PStr ''old'')])))
       id_a ''root'' ''approved'' None)"

text \<open>Alice submits and the admin rejects the submission.\<close>

definition one_rejection :: database where
  "one_rejection =
     snd (verify_kyc_submission studio_world
       (snd (submit_kyc studio_world (db_of []) ''alice''
               (complete_payload @ [(''face_image'', PStr ''old'')])))
       id_a ''root'' ''rejected'' (Some ''blurry document''))"


section \<open>Facts about the store\<close>

lemma update_one_unmatched:
  "find p xs = None \<Longrightarrow> update_one p f xs = (0, xs)"
  by (induction xs) (auto split: if_splits)

lemma update_one_matched:
  "find p xs = Some k \<Longrightarrow> fst (update_one p f xs) = (if f k = k then 0 else 1)"
  by (induction xs) (auto split: if_splits)

lemma find_update_one:
  "find p xs = Some k \<Longrightarrow> p (f k) \<Longrightarrow> find p (snd (update_one p f xs)) = Some (f k)"
  by (induction xs) (auto split: if_splits)

lemma doc_id_set_status [simp]: "doc_id (set_status w st notes kyc) = doc_id kyc"
  by (simp add: set_status_def Let_def split: option.splits)

lemma status_set_status [simp]: "status (set_status w st notes kyc) = st"
  by (simp add: set_status_def Let_def split: option.splits)

lemma user_id_set_status [simp]: "user_id (set_status w st notes kyc) = user_id kyc"
  by (simp add: set_status_def Let_def split: option.splits)

lemma status_stringify_id [simp]: "status (stringify_id kyc) = status kyc"
  by (simp add: stringify_id_def)

lemma user_id_stringify_id [simp]: "user_id (stringify_id kyc) = user_id kyc"
  by (simp add: stringify_id_def)

lemma get_kyc_submission_by_id_Some:
  "get_kyc_submission_by_id w db kyc_id = Some kyc \<Longrightarrow>
     \<exists>oid k. ObjectId_of kyc_id = Inr oid \<and> \<not> raises w FindOne
        \<and> find (\<lambda>k. doc_id k = oid) (kyc_collection db) = Some k \<and> kyc = stringify_id k"
  by (auto simp: get_kyc_submission_by_id_def split: sum.splits if_splits option.splits)

lemma update_kyc_status_True_D:
  assumes "fst (update_kyc_status w db kyc_id st notes)" and "ObjectId_of kyc_id = Inr oid"
  shows "kyc_collection (snd (update_kyc_status w db kyc_id st notes))
       = snd (update_one (\<lambda>k. doc_id k = oid) (set_status w st notes) (kyc_collection db))"
  using assms by (auto simp: update_kyc_status_def Let_def split: if_splits)

lemma ObjectId_of_id_a: "ObjectId_of id_a = Inr (ObjectId id_a)"
  by (simp add: ObjectId_of_def id_a_def hex_digit_def lower_hex_def)

lemma ObjectId_of_id_b: "ObjectId_of id_b = Inr (ObjectId id_b)"
  by (simp add: ObjectId_of_def id_b_def hex_digit_def lower_hex_def)

lemmas scenario_defs =
  test_world_def db_of_def stored_submission_def ObjectId_of_id_a ObjectId_of_id_b


section \<open>Facts about the scenarios\<close>

lemma img_width_replicate [simp]: "0 < n \<Longrightarrow> img_width (replicate n row) = length row"
  by (cases n) (simp_all add: img_width_def)

lemma studio_facts:
  "raises studio_world c = False"
  "utcnow studio_world = 1000"
  "new_object_id studio_world = id_a"
  "uuid4 studio_world = ''uuid-bb''"
  "validate_full_name studio_world v"
  "validate_email studio_world v"
  "validate_phone_number studio_world v"
  "validate_date_of_birth studio_world v"
  "validate_gender studio_world v"
  "validate_nationality studio_world v"
  "validate_document_number studio_world v v'"
  "validate_address studio_world d"
  "validate_base64_image studio_world v"
  "hash_sensitive_data studio_world v = ''hash:salt''"
  "store_kyc_verification studio_world u k b a db
     = (Inl CollaboratorError, blockchain_collection db)"
  by (simp_all add: studio_world_def test_world_def)

lemma faulty_facts:
  "raises faulty_world c = (c = Find)"
  "utcnow faulty_world = 2000"
  "new_object_id faulty_world = id_b"
  "uuid4 faulty_world = ''uuid-bb''"
  "validate_full_name faulty_world v"
  "validate_email faulty_world v"
  "validate_phone_number faulty_world v"
  "validate_date_of_birth faulty_world v"
  "validate_gender faulty_world v"
  "validate_nationality faulty_world v"
  "validate_document_number faulty_world v v'"
  "validate_address faulty_world d"
  "validate_base64_image faulty_world v"
  "hash_sensitive_data faulty_world v = ''hash:salt''"
  by (simp_all add: faulty_world_def studio_world_def test_world_def)

lemma studio_vision:
  "decode_base64_image studio_world (PStr ''live'') = Some (replicate 100 (replicate 100 2))"
  "decode_base64_image studio_world (PStr ''old'') = Some (replicate 100 (replicate 100 5))"
  "decode_base64_image studio_world (PStr ''new'') = Some (replicate 100 (replicate 100 9))"
  "detect_face studio_world (replicate 100 (replicate 100 p))
     = Some (replicate 60 (replicate 60 p))"
  "preprocess_face studio_world img = Some img"
  "compare_faces studio_world a b
     = Inr (Some (if b = replicate 60 (replicate 60 5) then 0.9 else 0.3))"
  by (simp_all add: decode_base64_image_def detect_face_def crop_def preprocess_face_def
        studio_world_def test_world_def)

lemma quality_old:
  "validate_image_quality studio_world (PStr ''old'') = (True, ''Image quality is acceptable'')"
  by (simp add: validate_image_quality_def studio_vision)
     (simp add: studio_world_def test_world_def)

lemma quality_new:
  "validate_image_quality faulty_world (PStr ''new'') = (True, ''Image quality is acceptable'')"
  by (simp add: validate_image_quality_def decode_base64_image_def faulty_world_def
        studio_world_def test_world_def detect_face_def crop_def)

lemma valid_with_face:
  "validate_kyc_data studio_world (complete_payload @ [(''face_image'', PStr img)]) False
     = (True, [])"
  "validate_kyc_data faulty_world (complete_payload @ [(''face_image'', PStr img)]) False
     = (True, [])"
  by (simp_all add: validate_kyc_data_def required_fields_def present_def
        check_field_def check_address_def dict_get_def dict_get_default_def strip_def
        is_space_def complete_payload_def Let_def studio_facts faulty_facts)

lemma face_check_with_face:
  "face_image_check studio_world (complete_payload @ [(''face_image'', PStr ''old'')])
     = (True, ''Image quality is acceptable'')"
  "face_image_check faulty_world (complete_payload @ [(''face_image'', PStr ''new'')])
     = (True, ''Image quality is acceptable'')"
  by (simp_all add: face_image_check_def has_key_def dict_get_def complete_payload_def
        quality_old quality_new)

lemma submission_fields:
  "doc_id (first_submission st) = ObjectId id_a"
  "doc_id (second_submission st) = ObjectId id_b"
  "user_id (first_submission st) = ''alice''"
  "user_id (second_submission st) = ''alice''"
  "status (first_submission st) = st"
  "status (second_submission st) = st"
  "submission_date (first_submission st) = 1000"
  "submission_date (second_submission st) = 2000"
  "face_image (first_submission st) = Some (PStr ''old'')"
  "face_image (second_submission st) = Some (PStr ''new'')"
  by (simp_all add: first_submission_def second_submission_def submission_data_def
        studio_facts faulty_facts dict_get_def complete_payload_def)

lemma approved_fields:
  "doc_id (approved_by_root kyc) = doc_id kyc"
  "user_id (approved_by_root kyc) = user_id kyc"
  "status (approved_by_root kyc) = ''approved''"
  "submission_date (approved_by_root kyc) = submission_date kyc"
  "face_image (approved_by_root kyc) = face_image kyc"
  by (simp_all add: approved_by_root_def)

lemma id_a_neq_id_b: "id_a \<noteq> id_b"
  by (simp add: id_a_def id_b_def)

lemma set_status_by_root:
  "set_status studio_world ''approved'' (Some ''Verified by admin root. '') kyc
     = approved_by_root kyc"
  by (simp add: set_status_def approved_by_root_def studio_facts Let_def)

lemma first_submit:
  "submit_kyc studio_world (db_of []) ''alice''
          (complete_payload @ [(''face_image'', PStr ''old'')])
   = ([(''success'', RBool True),
       (''message'', RStr ''KYC submission created successfully''),
       (''kyc_id'', RStr id_a), (''submission_id'', RStr ''uuid-bb''),
       (''status'', RStr ''pending'')],
      db_of [first_submission ''pending''])"
  by (simp add: submit_kyc_def submit_kyc_body_def valid_with_face face_check_with_face
        get_kyc_submissions_by_user_def create_kyc_submission_def db_of_def studio_facts Let_def
        first_submission_def)
     (simp add: submission_data_def studio_facts)

lemma first_approval:
  "snd (verify_kyc_submission studio_world (db_of [first_submission ''pending''])
          id_a ''root'' ''approved'' None)
   = db_of [approved_by_root (first_submission ''pending'')]"
  by (simp add: verify_kyc_submission_def get_kyc_submission_by_id_def decisions_def
        update_kyc_status_def ObjectId_of_id_a studio_facts submission_fields approved_fields
        db_of_def stringify_id_def set_status_by_root Let_def)

lemma second_submit:
  "submit_kyc faulty_world (db_of [approved_by_root (first_submission ''pending'')])
          ''alice'' (complete_payload @ [(''face_image'', PStr ''new'')])
   = ([(''success'', RBool True),
       (''message'', RStr ''KYC submission created successfully''),
       (''kyc_id'', RStr id_b), (''submission_id'', RStr ''uuid-bb''),
       (''status'', RStr ''pending'')],
      db_of [approved_by_root (first_submission ''pending''), second_submission ''pending''])"
  by (simp add: submit_kyc_def submit_kyc_body_def valid_with_face face_check_with_face
        get_kyc_submissions_by_user_def create_kyc_submission_def db_of_def faulty_facts Let_def
        second_submission_def)
     (simp add: submission_data_def faulty_facts)

lemma second_approval:
  "snd (verify_kyc_submission studio_world
          (db_of [approved_by_root (first_submission ''pending''), second_submission ''pending''])
          id_b ''root'' ''approved'' None)
   = db_of [approved_by_root (first_submission ''pending''),
            approved_by_root (second_submission ''pending'')]"
  by (simp add: verify_kyc_submission_def get_kyc_submission_by_id_def decisions_def
        update_kyc_status_def ObjectId_of_id_b studio_facts submission_fields approved_fields
        db_of_def stringify_id_def set_status_by_root id_a_neq_id_b Let_def)

lemma two_approvals_eq:
  "two_approvals = db_of [approved_by_root (first_submission ''pending''),
                          approved_by_root (second_submission ''pending'')]"
  by (simp add: two_approvals_def first_submit first_approval second_submit second_approval)

lemma first_rejection:
  "snd (verify_kyc_submission studio_world (db_of [first_submission ''pending''])
          id_a ''root'' ''rejected'' (Some ''blurry document''))
   = db_of [(first_submission ''rejected'')
              \<lparr>status_updated_at := Some 1000,
               admin_notes := Some ''Verified by admin root. blurry document''\<rparr>]"
  by (simp add: verify_kyc_submission_def get_kyc_submission_by_id_def decisions_def
        update_kyc_status_def ObjectId_of_id_a studio_facts submission_fields
        db_of_def stringify_id_def set_status_def Let_def)
     (simp add: first_submission_def)

lemma one_rejection_eq:
  "one_rejection
     = db_of [(first_submission ''rejected'')
                \<lparr>status_updated_at := Some 1000,
                 admin_notes := Some ''Verified by admin root. blurry document''\<rparr>]"
  by (simp add: one_rejection_def first_submit first_rejection)

lemma one_approval_eq:
  "one_approval = db_of [approved_by_root (first_submission ''pending'')]"
  by (simp add: one_approval_def first_submit first_approval)


section \<open>The admin decision\<close>

lemma verify_failure_not_pending:
  assumes "ObjectId_of kyc_id = Inr oid"
    and "find (\<lambda>k. doc_id k = oid) (kyc_collection db) = Some kyc"
    and "status kyc \<noteq> ''pending''"
  shows "(\<exists>msg. fst (verify_kyc_submission w db kyc_id admin_id decision notes) = failure msg)
       \<and> snd (verify_kyc_submission w db kyc_id admin_id decision notes) = db"
  using assms
  by (auto simp: verify_kyc_submission_def get_kyc_submission_by_id_def)

lemma verify_success_D:
  assumes "map_of (fst (verify_kyc_submission w db kyc_id admin_id decision notes)) ''success''
             = Some (RBool True)"
  shows "\<exists>oid kyc. ObjectId_of kyc_id = Inr oid
           \<and> find (\<lambda>k. doc_id k = oid) (kyc_collection db) = Some kyc
           \<and> status kyc = ''pending'' \<and> decision \<in> set decisions
           \<and> fst (update_kyc_status w db kyc_id decision
                  (Some (''Verified by admin '' @ admin_id @ ''. ''
                         @ (case notes of None \<Rightarrow> [] | Some n \<Rightarrow> n))))"
  using assms
  by (auto simp: verify_kyc_submission_def failure_def Let_def
        dest!: get_kyc_submission_by_id_Some split: option.splits if_splits)

lemma verify_success_db:
  assumes "map_of (fst (verify_kyc_submission w db kyc_id admin_id decision notes)) ''success''
             = Some (RBool True)"
  shows "kyc_collection (snd (verify_kyc_submission w db kyc_id admin_id decision notes))
       = kyc_collection (snd (update_kyc_status w db kyc_id decision
                  (Some (''Verified by admin '' @ admin_id @ ''. ''
                         @ (case notes of None \<Rightarrow> [] | Some n \<Rightarrow> n)))))"
  using assms
  by (auto simp: verify_kyc_submission_def failure_def Let_def split: option.splits if_splits)

lemmas decide_defs =
  verify_kyc_submission_def get_kyc_submission_by_id_def decisions_def stringify_id_def
  update_kyc_status_def set_status_def Let_def failure_def

text \<open>
  C2.  A decision succeeds only when \<open>kyc_id\<close> denotes a stored submission whose status is
  \<open>pending\<close>.  When the submission it denotes is already \<open>approved\<close> or \<open>rejected\<close>, the call
  returns a failure result and the database is unchanged.  After a successful decision,
  every further decision on the same \<open>kyc_id\<close> (by any admin, with any decision, whatever
  the collaborators do) returns a failure result and changes nothing.
\<close>

theorem verify_kyc_submission_pending_only:
  "(map_of (fst (verify_kyc_submission w db kyc_id admin_id decision notes)) ''success''
       = Some (RBool True) \<longrightarrow>
      (\<exists>oid kyc. ObjectId_of kyc_id = Inr oid
         \<and> find (\<lambda>k. doc_id k = oid) (kyc_collection db) = Some kyc
         \<and> status kyc = ''pending''))
   \<and> (\<forall>oid kyc. ObjectId_of kyc_id = Inr oid
         \<and> find (\<lambda>k. doc_id k = oid) (kyc_collection db) = Some kyc
         \<and> (status kyc = ''approved'' \<or> status kyc = ''rejected'') \<longrightarrow>
         (\<exists>msg. fst (verify_kyc_submission w db kyc_id admin_id decision notes) = failure msg)
         \<and> snd (verify_kyc_submission w db kyc_id admin_id decision notes) = db)
   \<and> (map_of (fst (verify_kyc_submission w db kyc_id admin_id decision notes)) ''success''
         = Some (RBool True) \<longrightarrow>
       (\<forall>w' admin_id' decision' notes'.
          (\<exists>msg. fst (verify_kyc_submission w'
                         (snd (verify_kyc_submission w db kyc_id admin_id decision notes))
                         kyc_id admin_id' decision' notes') = failure msg)
          \<and> snd (verify_kyc_submission w'
                    (snd (verify_kyc_submission w db kyc_id admin_id decision notes))
                    kyc_id admin_id' decision' notes')
              = snd (verify_kyc_submission w db kyc_id admin_id decision notes)))"
proof (intro conjI impI allI)
  assume ok: "map_of (fst (verify_kyc_submission w db kyc_id admin_id decision notes)) ''success''
       = Some (RBool True)"
  from verify_success_D[OF ok]
  show "\<exists>oid kyc. ObjectId_of kyc_id = Inr oid
         \<and> find (\<lambda>k. doc_id k = oid) (kyc_collection db) = Some kyc
         \<and> status kyc = ''pending''"
    by blast
next
  fix oid kyc
  assume h: "ObjectId_of kyc_id = Inr oid
         \<and> find (\<lambda>k. doc_id k = oid) (kyc_collection db) = Some kyc
         \<and> (status kyc = ''approved'' \<or> status kyc = ''rejected'')"
  then have "status kyc \<noteq> ''pending''" by auto
  with h verify_failure_not_pending[of kyc_id oid db kyc]
  show "(\<exists>msg. fst (verify_kyc_submission w db kyc_id admin_id decision notes) = failure msg)"
    and "snd (verify_kyc_submission w db kyc_id admin_id decision notes) = db"
    by blast+
next
  fix w' admin_id' decision' notes'
  assume ok: "map_of (fst (verify_kyc_submission w db kyc_id admin_id decision notes)) ''success''
       = Some (RBool True)"
  let ?nt = "Some (''Verified by admin '' @ admin_id @ ''. ''
                   @ (case notes of None \<Rightarrow> [] | Some n \<Rightarrow> n))"
  let ?db' = "snd (verify_kyc_submission w db kyc_id admin_id decision notes)"
  from verify_success_D[OF ok] obtain oid kyc where
    oid: "ObjectId_of kyc_id = Inr oid"
    and found: "find (\<lambda>k. doc_id k = oid) (kyc_collection db) = Some kyc"
    and dec: "decision \<in> set decisions"
    and upd: "fst (update_kyc_status w db kyc_id decision ?nt)"
    by blast
  have "doc_id kyc = oid" using found by (auto simp: find_Some_iff)
  then have "find (\<lambda>k. doc_id k = oid)
               (snd (update_one (\<lambda>k. doc_id k = oid) (set_status w decision ?nt)
                       (kyc_collection db)))
             = Some (set_status w decision ?nt kyc)"
    using find_update_one[OF found, of "set_status w decision ?nt"] by simp
  then have found': "find (\<lambda>k. doc_id k = oid) (kyc_collection ?db')
                       = Some (set_status w decision ?nt kyc)"
    using verify_success_db[OF ok] update_kyc_status_True_D[OF upd oid] by simp
  have np: "status (set_status w decision ?nt kyc) \<noteq> ''pending''"
    using dec by (auto simp: decisions_def)
  from verify_failure_not_pending[OF oid found' np, of w' admin_id' decision' notes']
  show "(\<exists>msg. fst (verify_kyc_submission w' ?db' kyc_id admin_id' decision' notes') = failure msg)"
    and "snd (verify_kyc_submission w' ?db' kyc_id admin_id' decision' notes') = ?db'"
    by blast+
qed

theorem verify_kyc_submission_pending_only_witness:
  "map_of (fst (verify_kyc_submission test_world
             (db_of [stored_submission id_a ''alice'' ''pending'' 10 ''old''])
             id_a ''root'' ''approved'' None)) ''success'' = Some (RBool True)
   \<and> (\<exists>msg. fst (verify_kyc_submission test_world
          (snd (verify_kyc_submission test_world
             (db_of [stored_submission id_a ''alice'' ''pending'' 10 ''old''])
             id_a ''root'' ''approved'' None))
          id_a ''admin2'' ''rejected'' None) = failure msg)
   \<and> snd (verify_kyc_submission test_world
          (snd (verify_kyc_submission test_world
             (db_of [stored_submission id_a ''alice'' ''pending'' 10 ''old''])
             id_a ''root'' ''approved'' None))
          id_a ''admin2'' ''rejected'' None)
       = snd (verify_kyc_submission test_world
             (db_of [stored_submission id_a ''alice'' ''pending'' 10 ''old''])
             id_a ''root'' ''approved'' None)
   \<and> ObjectId_of id_a = Inr (ObjectId id_a)
   \<and> find (\<lambda>k. doc_id k = ObjectId id_a)
        (kyc_collection (db_of [stored_submission id_a ''alice'' ''rejected'' 10 ''old'']))
       = Some (stored_submission id_a ''alice'' ''rejected'' 10 ''old'')
   \<and> status (stored_submission id_a ''alice'' ''rejected'' 10 ''old'') = ''rejected''
   \<and> fst (verify_kyc_submission test_world
            (db_of [stored_submission id_a ''alice'' ''rejected'' 10 ''old''])
            id_a ''root'' ''approved'' None)
       = failure ''KYC submission is already rejected''
   \<and> snd (verify_kyc_submission test_world
            (db_of [stored_submission id_a ''alice'' ''rejected'' 10 ''old''])
            id_a ''root'' ''approved'' None)
       = db_of [stored_submission id_a ''alice'' ''rejected'' 10 ''old'']"
proof -
  have ok: "map_of (fst (verify_kyc_submission test_world
             (db_of [stored_submission id_a ''alice'' ''pending'' 10 ''old''])
             id_a ''root'' ''approved'' None)) ''success'' = Some (RBool True)"
    by (simp add: decide_defs scenario_defs)
  have oid: "ObjectId_of id_a = Inr (ObjectId id_a)"
    by (rule ObjectId_of_id_a)
  have found: "find (\<lambda>k. doc_id k = ObjectId id_a)
                 (kyc_collection (db_of [stored_submission id_a ''alice'' ''rejected'' 10 ''old'']))
               = Some (stored_submission id_a ''alice'' ''rejected'' 10 ''old'')"
    by (simp add: db_of_def stored_submission_def)
  have rejected: "status (stored_submission id_a ''alice'' ''rejected'' 10 ''old'') = ''rejected''"
    by (simp add: stored_submission_def)
  from verify_kyc_submission_pending_only[of test_world
         "db_of [stored_submission id_a ''alice'' ''rejected'' 10 ''old'']"
         id_a "''root''" "''approved''" None] oid found rejected
  have unchanged: "snd (verify_kyc_submission test_world
            (db_of [stored_submission id_a ''alice'' ''rejected'' 10 ''old''])
            id_a ''root'' ''approved'' None)
       = db_of [stored_submission id_a ''alice'' ''rejected'' 10 ''old'']"
    by blast
  have refused: "fst (verify_kyc_submission test_world
            (db_of [stored_submission id_a ''alice'' ''rejected'' 10 ''old''])
            id_a ''root'' ''approved'' None)
       = failure ''KYC submission is already rejected''"
    by (simp add: decide_defs scenario_defs)
  from verify_kyc_submission_pending_only[of test_world
         "db_of [stored_submission id_a ''alice'' ''pending'' 10 ''old'']"
         id_a "''root''" "''approved''" None] ok oid found rejected unchanged refused
  show ?thesis by blast
qed

lemma update_kyc_status_pending:
  assumes "ObjectId_of kyc_id = Inr oid"
    and "find (\<lambda>k. doc_id k = oid) (kyc_collection db) = Some k"
    and "status k \<noteq> st"
    and "\<not> raises w UpdateOne"
  shows "update_kyc_status w db kyc_id st notes
       = (True, db\<lparr>kyc_collection :=
                     snd (update_one (\<lambda>k. doc_id k = oid) (set_status w st notes)
                            (kyc_collection db))\<rparr>)"
proof -
  have "set_status w st notes k \<noteq> k"
    using assms(3) by (metis status_set_status)
  then have "fst (update_one (\<lambda>k. doc_id k = oid) (set_status w st notes) (kyc_collection db)) = 1"
    using update_one_matched[OF assms(2)] by simp
  then show ?thesis
    using assms(1,4) by (simp add: update_kyc_status_def Let_def)
qed

text \<open>
  C3.  Take an \<open>approved\<close> decision on a pending submission whose status update is not
  refused by the store.  The update is applied first: the database \<open>db1\<close> that the
  blockchain service is called with already holds the submission as \<open>approved\<close>.  Whatever
  the blockchain service then does (\<open>outcome\<close> is a raised exception, an error result or a
  success), the operation returns the success result, and the final database is \<open>db1\<close>
  with the transactions the blockchain service recorded: the submission stays \<open>approved\<close>.
\<close>

theorem approval_survives_blockchain_failure:
  assumes "get_kyc_submission_by_id w db kyc_id = Some kyc"
    and "status kyc = ''pending''"
    and "\<not> raises w UpdateOne"
    and "update_kyc_status w db kyc_id ''approved''
           (Some (''Verified by admin '' @ admin_id @ ''. ''
                  @ (case notes of None \<Rightarrow> [] | Some n \<Rightarrow> n))) = (ok, db1)"
    and "store_kyc_verification w (user_id kyc) kyc_id True admin_id db1 = (outcome, txs)"
  shows "ok
    \<and> (\<exists>oid k. ObjectId_of kyc_id = Inr oid
          \<and> find (\<lambda>k. doc_id k = oid) (kyc_collection db1) = Some k
          \<and> status k = ''approved'')
    \<and> fst (verify_kyc_submission w db kyc_id admin_id ''approved'' notes)
        = [(''success'', RBool True),
           (''message'', RStr ''KYC submission approved successfully''),
           (''status'', RStr ''approved''),
           (''admin_notes'', RStr (''Verified by admin '' @ admin_id @ ''. ''
                  @ (case notes of None \<Rightarrow> [] | Some n \<Rightarrow> n)))]
    \<and> snd (verify_kyc_submission w db kyc_id admin_id ''approved'' notes)
        = db1\<lparr>blockchain_collection := txs\<rparr>
    \<and> (\<exists>oid k. ObjectId_of kyc_id = Inr oid
          \<and> find (\<lambda>k. doc_id k = oid)
               (kyc_collection (snd (verify_kyc_submission w db kyc_id admin_id ''approved'' notes)))
             = Some k
          \<and> status k = ''approved'')"
proof -
  let ?nt = "Some (''Verified by admin '' @ admin_id @ ''. ''
                   @ (case notes of None \<Rightarrow> [] | Some n \<Rightarrow> n))"
  from get_kyc_submission_by_id_Some[OF assms(1)] obtain oid k where
    oid: "ObjectId_of kyc_id = Inr oid"
    and found: "find (\<lambda>k. doc_id k = oid) (kyc_collection db) = Some k"
    and kyc: "kyc = stringify_id k"
    by blast
  have pend: "status k \<noteq> ''approved''" using assms(2) kyc by simp
  have upd: "update_kyc_status w db kyc_id ''approved'' ?nt
       = (True, db\<lparr>kyc_collection :=
                     snd (update_one (\<lambda>k. doc_id k = oid) (set_status w ''approved'' ?nt)
                            (kyc_collection db))\<rparr>)"
    by (rule update_kyc_status_pending[OF oid found pend assms(3)])
  with assms(4) have ok: "ok" and db1: "db1 = db\<lparr>kyc_collection :=
                     snd (update_one (\<lambda>k. doc_id k = oid) (set_status w ''approved'' ?nt)
                            (kyc_collection db))\<rparr>"
    by simp_all
  have "doc_id k = oid" using found by (auto simp: find_Some_iff)
  then have f1: "find (\<lambda>k. doc_id k = oid) (kyc_collection db1)
       = Some (set_status w ''approved'' ?nt k)"
    using find_update_one[OF found, of "set_status w ''approved'' ?nt"] db1 by simp
  have res: "verify_kyc_submission w db kyc_id admin_id ''approved'' notes
     = ([(''success'', RBool True),
           (''message'', RStr ''KYC submission approved successfully''),
           (''status'', RStr ''approved''),
           (''admin_notes'', RStr (''Verified by admin '' @ admin_id @ ''. ''
                  @ (case notes of None \<Rightarrow> [] | Some n \<Rightarrow> n)))],
        db1\<lparr>blockchain_collection := txs\<rparr>)"
    using assms(1,2,4,5) ok
    by (simp add: verify_kyc_submission_def decisions_def Let_def)
  show ?thesis
    using ok f1 oid res by simp
qed

theorem approval_survives_blockchain_failure_witness:
  "get_kyc_submission_by_id test_world
      (db_of [stored_submission id_a ''alice'' ''pending'' 10 ''old'']) id_a
     = Some (stringify_id (stored_submission id_a ''alice'' ''pending'' 10 ''old''))
   \<and> status (stringify_id (stored_submission id_a ''alice'' ''pending'' 10 ''old'')) = ''pending''
   \<and> \<not> raises test_world UpdateOne
   \<and> fst (store_kyc_verification test_world ''alice'' id_a True ''root''
        (db_of [(stored_submission id_a ''alice'' ''pending'' 10 ''old'')
                  \<lparr>status := ''approved'', status_updated_at := Some 1000,
                   admin_notes := Some ''Verified by admin root. blurry''\<rparr>]))
       = Inl CollaboratorError
   \<and> map_of (fst (verify_kyc_submission test_world
        (db_of [stored_submission id_a ''alice'' ''pending'' 10 ''old''])
        id_a ''root'' ''approved'' (Some ''blurry''))) ''success'' = Some (RBool True)
   \<and> map (\<lambda>k. status k) (kyc_collection (snd (verify_kyc_submission test_world
        (db_of [stored_submission id_a ''alice'' ''pending'' 10 ''old''])
        id_a ''root'' ''approved'' (Some ''blurry'')))) = [''approved'']"
proof -
  let ?db = "db_of [stored_submission id_a ''alice'' ''pending'' 10 ''old'']"
  let ?db1 = "db_of [(stored_submission id_a ''alice'' ''pending'' 10 ''old'')
                  \<lparr>status := ''approved'', status_updated_at := Some 1000,
                   admin_notes := Some ''Verified by admin root. blurry''\<rparr>]"
  have a: "get_kyc_submission_by_id test_world ?db id_a
     = Some (stringify_id (stored_submission id_a ''alice'' ''pending'' 10 ''old''))"
    by (simp add: decide_defs scenario_defs)
  have b: "status (stringify_id (stored_submission id_a ''alice'' ''pending'' 10 ''old'')) = ''pending''"
    by (simp add: scenario_defs)
  have c: "\<not> raises test_world UpdateOne"
    by (simp add: scenario_defs)
  have d: "update_kyc_status test_world ?db id_a ''approved''
           (Some (''Verified by admin '' @ ''root'' @ ''. ''
                  @ (case Some ''blurry'' of None \<Rightarrow> [] | Some n \<Rightarrow> n))) = (True, ?db1)"
    by (simp add: decide_defs scenario_defs)
  have e: "store_kyc_verification test_world
             (user_id (stringify_id (stored_submission id_a ''alice'' ''pending'' 10 ''old'')))
             id_a True ''root'' ?db1 = (Inl CollaboratorError, [])"
    by (simp add: scenario_defs)
  from approval_survives_blockchain_failure[OF a b c d e]
  have "fst (verify_kyc_submission test_world ?db id_a ''root'' ''approved'' (Some ''blurry''))
        = [(''success'', RBool True),
           (''message'', RStr ''KYC submission approved successfully''),
           (''status'', RStr ''approved''),
           (''admin_notes'', RStr (''Verified by admin '' @ ''root'' @ ''. ''
                  @ (case Some ''blurry'' of None \<Rightarrow> [] | Some n \<Rightarrow> n)))]"
    and "snd (verify_kyc_submission test_world ?db id_a ''root'' ''approved'' (Some ''blurry''))
        = ?db1\<lparr>blockchain_collection := []\<rparr>"
    by blast+
  then show ?thesis
    using a b c e by (simp add: scenario_defs)
qed


section \<open>One active submission per user\<close>

lemma filter_update_one_le:
  "find p xs = Some k \<Longrightarrow> (A (f k) \<Longrightarrow> A k) \<Longrightarrow>
     length (filter A (snd (update_one p f xs))) \<le> length (filter A xs)"
  by (induction xs) (auto split: if_splits)

lemma database_same_collection [simp]: "db\<lparr>kyc_collection := kyc_collection db\<rparr> = db"
  by simp

lemma doc_id_stringify_id [simp]: "doc_id (stringify_id k) = IdStr (str_id (doc_id k))"
  by (simp add: stringify_id_def)

lemma find_IdStr_None:
  "list_all (\<lambda>k. is_object_id (doc_id k)) xs \<Longrightarrow> find (\<lambda>k. doc_id k = IdStr s) xs = None"
  by (induction xs) auto

lemma update_kyc_submission_body_unchanged:
  assumes "object_ids db"
  shows "update_kyc_submission_body w db kyc_id uid update_data = Inr (r, db') \<Longrightarrow>
           db' = db \<and> (\<exists>msg. r = failure msg)"
  using assms
  by (auto simp: update_kyc_submission_body_def object_ids_def Let_def
        update_one_unmatched[OF find_IdStr_None]
        dest!: get_kyc_submission_by_id_Some
        split: option.splits if_splits sum.splits)

lemma update_kyc_submission_unchanged:
  assumes "object_ids db"
  shows "snd (update_kyc_submission w db kyc_id uid update_data) = db
       \<and> (\<exists>msg. fst (update_kyc_submission w db kyc_id uid update_data) = failure msg)"
proof (cases "update_kyc_submission_body w db kyc_id uid update_data")
  case (Inl e)
  then show ?thesis by (auto simp: update_kyc_submission_def)
next
  case (Inr p)
  then show ?thesis
    using update_kyc_submission_body_unchanged[OF assms, of w kyc_id uid update_data "fst p" "snd p"]
    by (simp add: update_kyc_submission_def)
qed


lemma verify_kyc_collection:
  "kyc_collection (snd (verify_kyc_submission w db kyc_id admin_id decision notes))
     = kyc_collection db
   \<or> (\<exists>oid k nt. find (\<lambda>k. doc_id k = oid) (kyc_collection db) = Some k
         \<and> status k = ''pending''
         \<and> kyc_collection (snd (verify_kyc_submission w db kyc_id admin_id decision notes))
             = snd (update_one (\<lambda>k. doc_id k = oid) (set_status w decision nt)
                      (kyc_collection db)))"
proof (cases "get_kyc_submission_by_id w db kyc_id")
  case None
  then show ?thesis by (simp add: verify_kyc_submission_def)
next
  case (Some kyc)
  from get_kyc_submission_by_id_Some[OF Some] obtain oid k where
    oid: "ObjectId_of kyc_id = Inr oid"
    and found: "find (\<lambda>k. doc_id k = oid) (kyc_collection db) = Some k"
    and kyc: "kyc = stringify_id k"
    by blast
  show ?thesis
  proof (cases "status k = ''pending''")
    case False
    then show ?thesis using Some kyc by (simp add: verify_kyc_submission_def)
  next
    case True
    then show ?thesis
      using Some kyc oid found
      by (auto simp: verify_kyc_submission_def update_kyc_status_def Let_def)
  qed
qed

lemma verify_preserves_active:
  "length (active_submissions (snd (verify_kyc_submission w db kyc_id admin_id decision notes)) uid)
     \<le> length (active_submissions db uid)"
proof -
  let ?A = "\<lambda>kyc. user_id kyc = uid \<and> status kyc \<in> set active_statuses"
  from verify_kyc_collection[of w db kyc_id admin_id decision "notes"]
  show ?thesis
  proof
    assume "kyc_collection (snd (verify_kyc_submission w db kyc_id admin_id decision notes))
              = kyc_collection db"
    then show ?thesis by (simp add: active_submissions_def)
  next
    assume "\<exists>oid k nt. find (\<lambda>k. doc_id k = oid) (kyc_collection db) = Some k
         \<and> status k = ''pending''
         \<and> kyc_collection (snd (verify_kyc_submission w db kyc_id admin_id decision notes))
             = snd (update_one (\<lambda>k. doc_id k = oid) (set_status w decision nt)
                      (kyc_collection db))"
    then obtain oid k nt where
      found: "find (\<lambda>k. doc_id k = oid) (kyc_collection db) = Some k"
      and pending: "status k = ''pending''"
      and coll: "kyc_collection (snd (verify_kyc_submission w db kyc_id admin_id decision notes))
             = snd (update_one (\<lambda>k. doc_id k = oid) (set_status w decision nt)
                      (kyc_collection db))"
      by blast
    have "?A (set_status w decision nt k) \<Longrightarrow> ?A k"
      using pending by (simp add: active_statuses_def)
    then have "length (filter ?A (snd (update_one (\<lambda>k. doc_id k = oid)
                  (set_status w decision nt) (kyc_collection db))))
               \<le> length (filter ?A (kyc_collection db))"
      using found by (rule filter_update_one_le[rotated])
    then show ?thesis by (simp add: active_submissions_def coll)
  qed
qed

lemma object_ids_set_status:
  "list_all (\<lambda>k. is_object_id (doc_id k)) xs \<Longrightarrow>
     list_all (\<lambda>k. is_object_id (doc_id k)) (snd (update_one p (set_status w st nt) xs))"
  by (induction xs) (auto split: if_splits)

lemma verify_preserves_object_ids:
  "object_ids db \<Longrightarrow>
     object_ids (snd (verify_kyc_submission w db kyc_id admin_id decision notes))"
  using verify_kyc_collection[of w db kyc_id admin_id decision "notes"]
  by (auto simp: object_ids_def object_ids_set_status)

lemma face_kyc_collection:
  "kyc_collection (snd (verify_face_with_stored_image w db uid live_image)) = kyc_collection db"
  by (auto simp: verify_face_with_stored_image_def verify_face_with_stored_image_body_def
        create_face_verification_def Let_def
        split: sum.splits option.splits if_splits rval.splits prod.splits)

lemma no_active_found:
  assumes "\<not> raises w Find"
    and "find (\<lambda>kyc. status kyc \<in> set active_statuses) (get_kyc_submissions_by_user w db uid) = None"
  shows "active_submissions db uid = []"
  using assms
  by (auto simp: get_kyc_submissions_by_user_def active_submissions_def find_None_iff
        filter_empty_conv)

lemma submit_kyc_cases:
  "snd (submit_kyc w db uid kyc_data) = db
   \<or> (find (\<lambda>kyc. status kyc \<in> set active_statuses) (get_kyc_submissions_by_user w db uid) = None
      \<and> (\<exists>kyc. user_id kyc = uid \<and> is_object_id (doc_id kyc)
            \<and> kyc_collection (snd (submit_kyc w db uid kyc_data)) = kyc_collection db @ [kyc]))"
  by (auto simp: submit_kyc_def submit_kyc_body_def create_kyc_submission_def submission_data_def
        Let_def split: sum.splits option.splits if_splits)

lemma submit_preserves_active:
  assumes "\<not> raises w Find" and "length (active_submissions db u) \<le> 1"
  shows "length (active_submissions (snd (submit_kyc w db uid kyc_data)) u) \<le> 1"
  using submit_kyc_cases[of w db uid kyc_data]
proof
  assume "snd (submit_kyc w db uid kyc_data) = db"
  then show ?thesis using assms(2) by simp
next
  assume "find (\<lambda>kyc. status kyc \<in> set active_statuses) (get_kyc_submissions_by_user w db uid) = None
      \<and> (\<exists>kyc. user_id kyc = uid \<and> is_object_id (doc_id kyc)
            \<and> kyc_collection (snd (submit_kyc w db uid kyc_data)) = kyc_collection db @ [kyc])"
  then obtain kyc where
    none: "find (\<lambda>kyc. status kyc \<in> set active_statuses) (get_kyc_submissions_by_user w db uid) = None"
    and user: "user_id kyc = uid"
    and coll: "kyc_collection (snd (submit_kyc w db uid kyc_data)) = kyc_collection db @ [kyc]"
    by blast
  show ?thesis
  proof (cases "u = uid")
    case True
    then show ?thesis
      using no_active_found[OF assms(1) none] coll by (simp add: active_submissions_def)
  next
    case False
    then show ?thesis
      using assms(2) coll user by (simp add: active_submissions_def)
  qed
qed

lemma submit_preserves_object_ids:
  "object_ids db \<Longrightarrow> object_ids (snd (submit_kyc w db uid kyc_data))"
  using submit_kyc_cases[of w db uid kyc_data]
  by (auto simp: object_ids_def)

lemma reachable_invariant:
  "reachable db \<Longrightarrow> object_ids db \<and> (\<forall>u. length (active_submissions db u) \<le> 1)"
proof (induction rule: reachable.induct)
  case start
  then show ?case by (simp add: object_ids_def active_submissions_def)
next
  case (submit db w uid kyc_data)
  then show ?case
    using submit_preserves_active submit_preserves_object_ids by blast
next
  case (decide db w kyc_id admin_id decision nts)
  then show ?case
    using verify_preserves_active[of w db kyc_id admin_id decision nts]
      verify_preserves_object_ids[of db w kyc_id admin_id decision nts]
    by (meson le_trans)
next
  case (update db w kyc_id uid update_data)
  then show ?case
    using update_kyc_submission_unchanged[of db w kyc_id uid update_data] by simp
next
  case (face db w uid live_image)
  then show ?case
    using face_kyc_collection[of w db uid live_image]
    by (simp add: perform_face_verification_def object_ids_def active_submissions_def)
qed

lemma submit_kyc_conflict:
  assumes "kyc \<in> set (get_kyc_submissions_by_user w db uid)"
    and "status kyc \<in> set active_statuses"
  shows "(\<exists>msg. fst (submit_kyc w db uid kyc_data) = failure msg)
       \<and> snd (submit_kyc w db uid kyc_data) = db
       \<and> (fst (validate_kyc_data w kyc_data False) \<longrightarrow>
            (\<exists>st. st \<in> set active_statuses \<and> fst (submit_kyc w db uid kyc_data)
                  = failure (''User already has '' @ st @ '' KYC submission'')))"
proof -
  from assms obtain k' where
    "find (\<lambda>kyc. status kyc \<in> set active_statuses) (get_kyc_submissions_by_user w db uid) = Some k'"
    by (cases "find (\<lambda>kyc. status kyc \<in> set active_statuses) (get_kyc_submissions_by_user w db uid)")
       (auto simp: find_None_iff)
  moreover from this have "status k' \<in> set active_statuses"
    by (auto simp: find_Some_iff)
  ultimately show ?thesis
    by (auto simp: submit_kyc_def submit_kyc_body_def Let_def)
qed



lemma stored_is_reported:
  assumes "\<not> raises w Find" and "kyc \<in> set (kyc_collection db)" and "user_id kyc = uid"
  shows "stringify_id kyc \<in> set (get_kyc_submissions_by_user w db uid)"
  using assms by (simp add: get_kyc_submissions_by_user_def)

text \<open>
  C1, as amended.  When the lookup does not raise and the user has a stored submission
  whose status is \<open>pending\<close> or \<open>approved\<close>, \<open>submit_kyc\<close> returns a failure result and
  leaves the database as it was; when the payload passes validation the failure is the
  conflict message naming such a status.  And in every database that service calls
  produce from the empty store, the lookup of each \<open>submit_kyc\<close> call not raising, each
  user has at most one submission whose status is \<open>pending\<close> or \<open>approved\<close>.
\<close>

theorem one_active_submission_per_user:
  "(\<forall>kyc. \<not> raises w Find \<and> kyc \<in> set (kyc_collection db) \<and> user_id kyc = uid
          \<and> status kyc \<in> set active_statuses \<longrightarrow>
       (\<exists>msg. fst (submit_kyc w db uid kyc_data) = failure msg)
       \<and> snd (submit_kyc w db uid kyc_data) = db
       \<and> (fst (validate_kyc_data w kyc_data False) \<longrightarrow>
            (\<exists>st. st \<in> set active_statuses \<and> fst (submit_kyc w db uid kyc_data)
                  = failure (''User already has '' @ st @ '' KYC submission''))))
   \<and> (reachable db \<longrightarrow> length (active_submissions db uid) \<le> 1)"
proof (rule conjI)
  show "\<forall>kyc. \<not> raises w Find \<and> kyc \<in> set (kyc_collection db) \<and> user_id kyc = uid
          \<and> status kyc \<in> set active_statuses \<longrightarrow>
       (\<exists>msg. fst (submit_kyc w db uid kyc_data) = failure msg)
       \<and> snd (submit_kyc w db uid kyc_data) = db
       \<and> (fst (validate_kyc_data w kyc_data False) \<longrightarrow>
            (\<exists>st. st \<in> set active_statuses \<and> fst (submit_kyc w db uid kyc_data)
                  = failure (''User already has '' @ st @ '' KYC submission'')))"
  proof (intro allI impI)
    fix kyc
    assume "\<not> raises w Find \<and> kyc \<in> set (kyc_collection db) \<and> user_id kyc = uid
          \<and> status kyc \<in> set active_statuses"
    then have "stringify_id kyc \<in> set (get_kyc_submissions_by_user w db uid)"
      and "status (stringify_id kyc) \<in> set active_statuses"
      by (simp_all add: stored_is_reported)
    then show "(\<exists>msg. fst (submit_kyc w db uid kyc_data) = failure msg)
       \<and> snd (submit_kyc w db uid kyc_data) = db
       \<and> (fst (validate_kyc_data w kyc_data False) \<longrightarrow>
            (\<exists>st. st \<in> set active_statuses \<and> fst (submit_kyc w db uid kyc_data)
                  = failure (''User already has '' @ st @ '' KYC submission'')))"
      by (rule submit_kyc_conflict)
  qed
  show "reachable db \<longrightarrow> length (active_submissions db uid) \<le> 1"
    using reachable_invariant by blast
qed

theorem one_active_submission_per_user_witness:
  "\<not> raises studio_world Find
   \<and> approved_by_root (first_submission ''pending'') \<in> set (kyc_collection one_approval)
   \<and> user_id (approved_by_root (first_submission ''pending'')) = ''alice''
   \<and> status (approved_by_root (first_submission ''pending'')) \<in> set active_statuses
   \<and> fst (validate_kyc_data studio_world
             (complete_payload @ [(''face_image'', PStr ''new'')]) False)
   \<and> fst (submit_kyc studio_world one_approval ''alice''
             (complete_payload @ [(''face_image'', PStr ''new'')]))
       = failure ''User already has approved KYC submission''
   \<and> snd (submit_kyc studio_world one_approval ''alice''
             (complete_payload @ [(''face_image'', PStr ''new'')])) = one_approval
   \<and> reachable one_approval
   \<and> length (active_submissions one_approval ''alice'') \<le> 1"
proof -
  let ?k = "approved_by_root (first_submission ''pending'')"
  let ?new = "complete_payload @ [(''face_image'', PStr ''new'')]"
  have q: "\<not> raises studio_world Find"
    by (simp add: studio_facts)
  have s: "?k \<in> set (kyc_collection one_approval)"
    by (simp add: one_approval_eq db_of_def)
  have u: "user_id ?k = ''alice''"
    by (simp add: approved_fields submission_fields)
  have a: "status ?k \<in> set active_statuses"
    by (simp add: approved_fields active_statuses_def)
  have v: "fst (validate_kyc_data studio_world ?new False)"
    by (simp add: valid_with_face)
  have r: "reachable one_approval"
    unfolding one_approval_def
    by (intro reachable.decide reachable.submit) (simp_all add: db_of_def reachable.start studio_facts)
  from one_active_submission_per_user[of studio_world one_approval "''alice''" ?new] q s u a v r
  obtain st where "st \<in> set active_statuses"
    and f: "fst (submit_kyc studio_world one_approval ''alice'' ?new)
              = failure (''User already has '' @ st @ '' KYC submission'')"
    and d: "snd (submit_kyc studio_world one_approval ''alice'' ?new) = one_approval"
    and l: "length (active_submissions one_approval ''alice'') \<le> 1"
    by blast
  have "fst (submit_kyc studio_world one_approval ''alice'' ?new)
          = failure ''User already has approved KYC submission''"
    by (simp add: one_approval_eq submit_kyc_def submit_kyc_body_def valid_with_face
          get_kyc_submissions_by_user_def db_of_def studio_facts approved_fields
          submission_fields active_statuses_def stringify_id_def Let_def)
  with q s u a v d r l show ?thesis by blast
qed

text \<open>
  C1, as stated, fails when the lookup raises: the repository answers with the empty list,
  \<open>submit_kyc\<close> finds no conflict and inserts.  Alice, whose submission is approved,
  submits again and succeeds; she then has two active submissions.
\<close>

theorem second_active_submission_counterexample:
  "map (\<lambda>k. (user_id k, status k)) (kyc_collection one_approval) = [(''alice'', ''approved'')]
   \<and> map_of (fst (submit_kyc faulty_world one_approval ''alice''
                    (complete_payload @ [(''face_image'', PStr ''new'')]))) ''success''
       = Some (RBool True)
   \<and> map (\<lambda>k. (user_id k, status k))
        (kyc_collection (snd (submit_kyc faulty_world one_approval ''alice''
                                (complete_payload @ [(''face_image'', PStr ''new'')]))))
       = [(''alice'', ''approved''), (''alice'', ''pending'')]
   \<and> length (active_submissions
               (snd (submit_kyc faulty_world one_approval ''alice''
                       (complete_payload @ [(''face_image'', PStr ''new'')]))) ''alice'') = 2"
  by (simp add: one_approval_eq second_submit)
     (simp add: db_of_def active_submissions_def active_statuses_def approved_fields
        submission_fields)

section \<open>The status query\<close>

lemma max_by_in: "max_by key b xs \<in> set (b # xs)"
  by (induction xs arbitrary: b) auto

lemma max_by_ge_start: "key b \<le> key (max_by key b xs)"
proof (induction xs arbitrary: b)
  case Nil
  then show ?case by simp
next
  case (Cons y ys)
  have "key b \<le> key (if key b < key y then y else b)" by (simp add: less_imp_le)
  also have "\<dots> \<le> key (max_by key (if key b < key y then y else b) ys)"
    by (rule Cons.IH)
  finally show ?case by simp
qed

lemma max_by_ge: "x \<in> set xs \<Longrightarrow> key x \<le> key (max_by key b xs)"
proof (induction xs arbitrary: b)
  case Nil
  then show ?case by simp
next
  case (Cons y ys)
  show ?case
  proof (cases "x = y")
    case True
    have "key y \<le> key (if key b < key y then y else b)" by (simp add: not_less)
    also have "\<dots> \<le> key (max_by key (if key b < key y then y else b) ys)"
      by (rule max_by_ge_start)
    finally show ?thesis using True by simp
  next
    case False
    with Cons.prems have "x \<in> set ys" by simp
    from Cons.IH[OF this] show ?thesis by simp
  qed
qed

lemma submission_date_stringify_id [simp]:
  "submission_date (stringify_id k) = submission_date k"
  by (simp add: stringify_id_def)

lemma str_id_stringify_id [simp]: "str_id (doc_id (stringify_id k)) = str_id (doc_id k)"
  by (simp add: stringify_id_def)

text \<open>
  C5, as amended.  When the lookup does not raise: for a user with no stored submission
  \<open>get_kyc_status\<close> answers \<open>not_submitted\<close>; for a user with stored submissions it
  answers with the status (and the id) of one of them whose \<open>submission_date\<close> is greatest
  among the user's submissions.  When the lookup raises it answers \<open>not_submitted\<close>.
\<close>

theorem get_kyc_status_latest:
  "(\<not> raises w Find \<and> (\<forall>k \<in> set (kyc_collection db). user_id k \<noteq> uid) \<longrightarrow>
      get_kyc_status w db uid
        = [(''success'', RBool True), (''status'', RStr ''not_submitted''),
           (''message'', RStr ''No KYC submission found'')])
   \<and> (\<not> raises w Find \<and> (\<exists>k \<in> set (kyc_collection db). user_id k = uid) \<longrightarrow>
        (\<exists>kyc \<in> set (kyc_collection db).
            user_id kyc = uid
          \<and> (\<forall>k \<in> set (kyc_collection db).
                 user_id k = uid \<longrightarrow> submission_date k \<le> submission_date kyc)
          \<and> map_of (get_kyc_status w db uid) ''success'' = Some (RBool True)
          \<and> map_of (get_kyc_status w db uid) ''status'' = Some (RStr (status kyc))
          \<and> map_of (get_kyc_status w db uid) ''kyc_id'' = Some (RStr (str_id (doc_id kyc)))))
   \<and> (raises w Find \<longrightarrow>
        get_kyc_status w db uid
          = [(''success'', RBool True), (''status'', RStr ''not_submitted''),
             (''message'', RStr ''No KYC submission found'')])"
proof (intro conjI impI)
  assume "raises w Find"
  then show "get_kyc_status w db uid
          = [(''success'', RBool True), (''status'', RStr ''not_submitted''),
             (''message'', RStr ''No KYC submission found'')]"
    by (simp add: get_kyc_status_def get_kyc_submissions_by_user_def)
next
  assume "\<not> raises w Find \<and> (\<forall>k \<in> set (kyc_collection db). user_id k \<noteq> uid)"
  then have "get_kyc_submissions_by_user w db uid = []"
    by (auto simp: get_kyc_submissions_by_user_def filter_empty_conv)
  then show "get_kyc_status w db uid
        = [(''success'', RBool True), (''status'', RStr ''not_submitted''),
           (''message'', RStr ''No KYC submission found'')]"
    by (simp add: get_kyc_status_def)
next
  assume h: "\<not> raises w Find \<and> (\<exists>k \<in> set (kyc_collection db). user_id k = uid)"
  let ?mine = "filter (\<lambda>k. user_id k = uid) (kyc_collection db)"
  from h have subs: "get_kyc_submissions_by_user w db uid = map stringify_id ?mine"
    by (simp add: get_kyc_submissions_by_user_def)
  from h have "?mine \<noteq> []" by (auto simp: filter_empty_conv)
  then obtain k0 ks where mine: "?mine = k0 # ks" by (cases ?mine) auto
  let ?m = "max_by submission_date (stringify_id k0) (map stringify_id ks)"
  have "?m \<in> set (map stringify_id (k0 # ks))"
    using max_by_in[of submission_date "stringify_id k0" "map stringify_id ks"] by simp
  then obtain kyc where kyc: "kyc \<in> set (k0 # ks)" and m: "?m = stringify_id kyc"
    by auto
  have in_db: "kyc \<in> set (kyc_collection db)" and own: "user_id kyc = uid"
    using kyc mine[symmetric] by auto
  have ge: "submission_date k \<le> submission_date kyc"
    if "k \<in> set (kyc_collection db)" and "user_id k = uid" for k
  proof -
    from that have "k \<in> set ?mine" by simp
    then have "k \<in> set (k0 # ks)" by (simp only: mine)
    then have "k = k0 \<or> stringify_id k \<in> set (map stringify_id ks)" by auto
    then show ?thesis
    proof
      assume "k = k0"
      then show ?thesis
        using max_by_ge_start[of submission_date "stringify_id k0" "map stringify_id ks"]
        by (simp add: m)
    next
      assume "stringify_id k \<in> set (map stringify_id ks)"
      from max_by_ge[OF this, of submission_date "stringify_id k0"] show ?thesis
        by (simp add: m)
    qed
  qed
  have res: "get_kyc_status w db uid
     = [(''success'', RBool True),
        (''status'', RStr (status kyc)),
        (''kyc_id'', RStr (str_id (doc_id kyc))),
        (''submission_date'', RTime (submission_date kyc)),
        (''last_updated'', opt_time (status_updated_at (stringify_id kyc))),
        (''admin_notes'', opt_str (admin_notes (stringify_id kyc))),
        (''verification_attempts'', RNat (verification_attempts (stringify_id kyc)))]"
    by (simp add: get_kyc_status_def subs mine Let_def m)
  show "\<exists>kyc \<in> set (kyc_collection db).
            user_id kyc = uid
          \<and> (\<forall>k \<in> set (kyc_collection db).
                 user_id k = uid \<longrightarrow> submission_date k \<le> submission_date kyc)
          \<and> map_of (get_kyc_status w db uid) ''success'' = Some (RBool True)
          \<and> map_of (get_kyc_status w db uid) ''status'' = Some (RStr (status kyc))
          \<and> map_of (get_kyc_status w db uid) ''kyc_id'' = Some (RStr (str_id (doc_id kyc)))"
    using in_db own ge res by (intro bexI[of _ kyc]) auto
qed


theorem get_kyc_status_latest_witness:
  "\<not> raises test_world Find
   \<and> list_all (\<lambda>k. user_id k \<noteq> ''bob'')
        (kyc_collection (db_of [stored_submission id_a ''alice'' ''rejected'' 10 ''old'',
                                stored_submission id_b ''alice'' ''pending'' 20 ''new'']))
   \<and> map_of (get_kyc_status test_world
        (db_of [stored_submission id_a ''alice'' ''rejected'' 10 ''old'',
                stored_submission id_b ''alice'' ''pending'' 20 ''new'']) ''bob'') ''status''
       = Some (RStr ''not_submitted'')
   \<and> (\<exists>k \<in> set (kyc_collection
                    (db_of [stored_submission id_a ''alice'' ''rejected'' 10 ''old'',
                            stored_submission id_b ''alice'' ''pending'' 20 ''new''])).
          user_id k = ''alice'')
   \<and> map_of (get_kyc_status test_world
        (db_of [stored_submission id_a ''alice'' ''rejected'' 10 ''old'',
                stored_submission id_b ''alice'' ''pending'' 20 ''new'']) ''alice'') ''status''
       = Some (RStr ''pending'')
   \<and> map_of (get_kyc_status test_world
        (db_of [stored_submission id_a ''alice'' ''rejected'' 10 ''old'',
                stored_submission id_b ''alice'' ''pending'' 20 ''new'']) ''alice'') ''kyc_id''
       = Some (RStr id_b)
   \<and> raises faulty_world Find
   \<and> map_of (get_kyc_status faulty_world
        (db_of [stored_submission id_a ''alice'' ''rejected'' 10 ''old'',
                stored_submission id_b ''alice'' ''pending'' 20 ''new'']) ''alice'') ''status''
       = Some (RStr ''not_submitted'')"
proof -
  let ?a = "stored_submission id_a ''alice'' ''rejected'' 10 ''old''"
  let ?b = "stored_submission id_b ''alice'' ''pending'' 20 ''new''"
  let ?db = "db_of [?a, ?b]"
  have quiet: "\<not> raises test_world Find"
    by (simp add: scenario_defs)
  have coll: "kyc_collection ?db = [?a, ?b]"
    by (simp add: db_of_def)
  have no_bob: "\<forall>k \<in> set (kyc_collection ?db). user_id k \<noteq> ''bob''"
    by (simp add: coll) (simp add: stored_submission_def)
  have some_alice: "\<exists>k \<in> set (kyc_collection ?db). user_id k = ''alice''"
    by (simp add: coll) (simp add: stored_submission_def)
  from get_kyc_status_latest[of test_world ?db "''bob''"] quiet no_bob
  have bob: "get_kyc_status test_world ?db ''bob''
        = [(''success'', RBool True), (''status'', RStr ''not_submitted''),
           (''message'', RStr ''No KYC submission found'')]"
    by blast
  from get_kyc_status_latest[of test_world ?db "''alice''"] quiet some_alice
  obtain kyc where
    kyc: "kyc \<in> set (kyc_collection ?db)"
    and latest: "\<forall>k \<in> set (kyc_collection ?db).
                   user_id k = ''alice'' \<longrightarrow> submission_date k \<le> submission_date kyc"
    and st: "map_of (get_kyc_status test_world ?db ''alice'') ''status'' = Some (RStr (status kyc))"
    and kid: "map_of (get_kyc_status test_world ?db ''alice'') ''kyc_id''
                = Some (RStr (str_id (doc_id kyc)))"
    by blast
  from latest have "submission_date ?b \<le> submission_date kyc"
    by (simp add: coll) (simp add: stored_submission_def)
  with kyc have "kyc = ?b"
    by (simp add: coll) (auto simp: stored_submission_def)
  with st kid have "map_of (get_kyc_status test_world ?db ''alice'') ''status''
                      = Some (RStr ''pending'')"
    and "map_of (get_kyc_status test_world ?db ''alice'') ''kyc_id'' = Some (RStr id_b)"
    by (simp_all add: stored_submission_def)
  moreover have down: "raises faulty_world Find"
    by (simp add: faulty_facts)
  moreover from get_kyc_status_latest[of faulty_world ?db "''alice''"] down
  have "map_of (get_kyc_status faulty_world ?db ''alice'') ''status''
          = Some (RStr ''not_submitted'')"
    by simp
  ultimately show ?thesis
    using quiet bob some_alice
    by (simp add: coll) (simp add: stored_submission_def)
qed


text \<open>
  C5, as stated, fails when the lookup raises: Alice has an approved submission and the
  answer is \<open>not_submitted\<close>.
\<close>

theorem status_lookup_failure_counterexample:
  "map (\<lambda>k. (user_id k, status k)) (kyc_collection one_approval) = [(''alice'', ''approved'')]
   \<and> map_of (get_kyc_status faulty_world one_approval ''alice'') ''status''
       = Some (RStr ''not_submitted'')"
  by (simp add: one_approval_eq db_of_def approved_fields submission_fields get_kyc_status_def
        get_kyc_submissions_by_user_def faulty_facts)

section \<open>Face extraction\<close>




section \<open>Verification against the stored image\<close>

lemma verify_faces_keys:
  "\<exists>score same. map_of (verify_faces w a b) ''similarity_score'' = Some (RFloat score)
      \<and> map_of (verify_faces w a b) ''is_same_person'' = Some (RBool same)"
  by (auto simp: verify_faces_def faces_failure_def Let_def
        split: option.splits sum.splits)

lemma verify_face_recorded:
  assumes "find (\<lambda>kyc. status kyc = ''approved'') (get_kyc_submissions_by_user w db uid)
             = Some approved_kyc"
    and "face_image approved_kyc = Some stored"
    and "decode_base64_image w live_image = Some a"
    and "decode_base64_image w stored = Some b"
    and "\<not> raises w InsertOne"
  shows "\<exists>score same.
           map_of (verify_faces w a b) ''similarity_score'' = Some (RFloat score)
         \<and> map_of (verify_faces w a b) ''is_same_person'' = Some (RBool same)
         \<and> verify_face_with_stored_image w db uid live_image
           = (verify_faces w a b,
              db\<lparr>face_verification_collection :=
                   face_verification_collection db @
                     [\<lparr>fv_id = ObjectId (new_object_id w), fv_user_id = uid,
                       fv_kyc_submission_id = str_id (doc_id approved_kyc),
                       fv_similarity_score = score,
                       fv_verification_result = same,
                       fv_threshold_used = verification_threshold,
                       fv_verification_date = utcnow w\<rparr>]\<rparr>)"
proof -
  from verify_faces_keys[of w a b] obtain score same where
    keys: "map_of (verify_faces w a b) ''similarity_score'' = Some (RFloat score)"
          "map_of (verify_faces w a b) ''is_same_person'' = Some (RBool same)"
    by blast
  from assms(1) have ne: "get_kyc_submissions_by_user w db uid \<noteq> []"
    by auto
  have "verify_face_with_stored_image w db uid live_image
           = (verify_faces w a b,
              db\<lparr>face_verification_collection :=
                   face_verification_collection db @
                     [\<lparr>fv_id = ObjectId (new_object_id w), fv_user_id = uid,
                       fv_kyc_submission_id = str_id (doc_id approved_kyc),
                       fv_similarity_score = score,
                       fv_verification_result = same,
                       fv_threshold_used = verification_threshold,
                       fv_verification_date = utcnow w\<rparr>]\<rparr>)"
    using assms ne keys
    by (simp add: verify_face_with_stored_image_def verify_face_with_stored_image_body_def
          create_face_verification_def Let_def)
  with keys show ?thesis by blast
qed

lemma verify_face_not_recorded:
  assumes "find (\<lambda>kyc. status kyc = ''approved'') (get_kyc_submissions_by_user w db uid) = None
         \<or> (\<exists>kyc. find (\<lambda>kyc. status kyc = ''approved'') (get_kyc_submissions_by_user w db uid)
                     = Some kyc
                \<and> (face_image kyc = None
                    \<or> decode_base64_image w live_image = None
                    \<or> (\<exists>stored. face_image kyc = Some stored
                           \<and> decode_base64_image w stored = None)))"
  shows "snd (verify_face_with_stored_image w db uid live_image) = db
       \<and> map_of (fst (verify_face_with_stored_image w db uid live_image)) ''success''
           = Some (RBool False)"
  using assms
  by (auto simp: verify_face_with_stored_image_def verify_face_with_stored_image_body_def
        stored_failure_def Let_def split: option.splits)


lemma verify_face_insert_raises:
  assumes "find (\<lambda>kyc. status kyc = ''approved'') (get_kyc_submissions_by_user w db uid)
             = Some approved_kyc"
    and "face_image approved_kyc = Some stored"
    and "decode_base64_image w live_image = Some a"
    and "decode_base64_image w stored = Some b"
    and "raises w InsertOne"
  shows "verify_face_with_stored_image w db uid live_image
           = (stored_failure ''Face verification failed due to system error'', db)"
proof -
  from verify_faces_keys[of w a b] obtain score same where
    keys: "map_of (verify_faces w a b) ''similarity_score'' = Some (RFloat score)"
          "map_of (verify_faces w a b) ''is_same_person'' = Some (RBool same)"
    by blast
  from assms(1) have ne: "get_kyc_submissions_by_user w db uid \<noteq> []"
    by auto
  show ?thesis
    using assms ne keys
    by (simp add: verify_face_with_stored_image_def verify_face_with_stored_image_body_def
          create_face_verification_def Let_def)
qed

lemmas face_defs =
  verify_face_with_stored_image_def verify_face_with_stored_image_body_def
  get_kyc_submissions_by_user_def stringify_id_def decode_base64_image_def
  verify_faces_def detect_face_def preprocess_face_def faces_failure_def stored_failure_def
  create_face_verification_def crop_def area_def verification_threshold_def Let_def

text \<open>
  C6, as amended.  Let the first approved submission the repository reports for the user
  have a \<open>face_image\<close>, let the live and the stored image both decode, and let the insert
  not raise.  Then \<open>verify_face_with_stored_image\<close> returns what \<open>verify_faces\<close> returns on the
  two decoded images, whatever that is (match, no match, no face, failed comparison), and
  the database afterwards is the one before with exactly one record appended to
  \<open>face_verifications\<close>, carrying the score and the decision of that result.  When the
  repository reports no approved submission, or the approved one has no \<open>face_image\<close>, or
  either image fails to decode, the result is a failure and the database is unchanged.
  When both images decode and the insert raises, the result is the generic failure and the
  database is unchanged.
\<close>

theorem one_record_per_decoded_verification:
  "(\<forall>approved_kyc stored a b.
       find (\<lambda>kyc. status kyc = ''approved'') (get_kyc_submissions_by_user w db uid)
         = Some approved_kyc
     \<and> face_image approved_kyc = Some stored
     \<and> decode_base64_image w live_image = Some a
     \<and> decode_base64_image w stored = Some b
     \<and> \<not> raises w InsertOne \<longrightarrow>
       (\<exists>score same.
           map_of (verify_faces w a b) ''similarity_score'' = Some (RFloat score)
         \<and> map_of (verify_faces w a b) ''is_same_person'' = Some (RBool same)
         \<and> verify_face_with_stored_image w db uid live_image
           = (verify_faces w a b,
              db\<lparr>face_verification_collection :=
                   face_verification_collection db @
                     [\<lparr>fv_id = ObjectId (new_object_id w), fv_user_id = uid,
                       fv_kyc_submission_id = str_id (doc_id approved_kyc),
                       fv_similarity_score = score,
                       fv_verification_result = same,
                       fv_threshold_used = verification_threshold,
                       fv_verification_date = utcnow w\<rparr>]\<rparr>)))
   \<and> (find (\<lambda>kyc. status kyc = ''approved'') (get_kyc_submissions_by_user w db uid) = None
       \<or> (\<exists>kyc. find (\<lambda>kyc. status kyc = ''approved'') (get_kyc_submissions_by_user w db uid)
                   = Some kyc
              \<and> (face_image kyc = None
                  \<or> decode_base64_image w live_image = None
                  \<or> (\<exists>stored. face_image kyc = Some stored
                         \<and> decode_base64_image w stored = None))) \<longrightarrow>
         snd (verify_face_with_stored_image w db uid live_image) = db
       \<and> map_of (fst (verify_face_with_stored_image w db uid live_image)) ''success''
           = Some (RBool False))
   \<and> (\<forall>approved_kyc stored a b.
       find (\<lambda>kyc. status kyc = ''approved'') (get_kyc_submissions_by_user w db uid)
         = Some approved_kyc
     \<and> face_image approved_kyc = Some stored
     \<and> decode_base64_image w live_image = Some a
     \<and> decode_base64_image w stored = Some b
     \<and> raises w InsertOne \<longrightarrow>
       verify_face_with_stored_image w db uid live_image
         = (stored_failure ''Face verification failed due to system error'', db))"
  using verify_face_recorded[of w db uid _ _ live_image]
    verify_face_not_recorded[of w db uid live_image]
    verify_face_insert_raises[of w db uid _ _ live_image]
  by blast

theorem one_record_per_decoded_verification_witness:
  "find (\<lambda>kyc. status kyc = ''approved'')
      (get_kyc_submissions_by_user crowd_world
         (db_of [stored_submission id_a ''alice'' ''approved'' 10 ''old'']) ''alice'')
     = Some (stringify_id (stored_submission id_a ''alice'' ''approved'' 10 ''old''))
   \<and> face_image (stringify_id (stored_submission id_a ''alice'' ''approved'' 10 ''old''))
       = Some (PStr ''old'')
   \<and> decode_base64_image crowd_world (PStr ''live'') = Some [[2, 3], [4, 6]]
   \<and> decode_base64_image crowd_world (PStr ''old'') = Some [[5, 6], [7, 8]]
   \<and> \<not> raises crowd_world InsertOne
   \<and> map_of (fst (verify_face_with_stored_image crowd_world
                    (db_of [stored_submission id_a ''alice'' ''approved'' 10 ''old''])
                    ''alice'' (PStr ''live''))) ''message''
       = Some (RStr ''No face detected in second image'')
   \<and> length (face_verification_collection
        (snd (verify_face_with_stored_image crowd_world
                (db_of [stored_submission id_a ''alice'' ''approved'' 10 ''old''])
                ''alice'' (PStr ''live'')))) = 1
   \<and> find (\<lambda>kyc. status kyc = ''approved'')
        (get_kyc_submissions_by_user crowd_world
           (db_of [stored_submission id_a ''alice'' ''approved'' 10 ''old'']) ''bob'') = None
   \<and> snd (verify_face_with_stored_image crowd_world
            (db_of [stored_submission id_a ''alice'' ''approved'' 10 ''old''])
            ''bob'' (PStr ''live''))
       = db_of [stored_submission id_a ''alice'' ''approved'' 10 ''old'']
   \<and> find (\<lambda>kyc. status kyc = ''approved'')
        (get_kyc_submissions_by_user readonly_world
           (db_of [stored_submission id_a ''alice'' ''approved'' 10 ''old'']) ''alice'')
       = Some (stringify_id (stored_submission id_a ''alice'' ''approved'' 10 ''old''))
   \<and> decode_base64_image readonly_world (PStr ''live'') = Some [[2, 3], [4, 6]]
   \<and> decode_base64_image readonly_world (PStr ''old'') = Some [[5, 6], [7, 8]]
   \<and> raises readonly_world InsertOne
   \<and> snd (verify_face_with_stored_image readonly_world
            (db_of [stored_submission id_a ''alice'' ''approved'' 10 ''old''])
            ''alice'' (PStr ''live''))
       = db_of [stored_submission id_a ''alice'' ''approved'' 10 ''old'']"
proof -
  let ?k = "stored_submission id_a ''alice'' ''approved'' 10 ''old''"
  let ?db = "db_of [?k]"
  have subs: "get_kyc_submissions_by_user crowd_world ?db ''alice'' = [stringify_id ?k]"
    by (simp add: get_kyc_submissions_by_user_def crowd_world_def scenario_defs)
  have f: "find (\<lambda>kyc. status kyc = ''approved'')
             (get_kyc_submissions_by_user crowd_world ?db ''alice'') = Some (stringify_id ?k)"
    unfolding subs by (simp add: stored_submission_def)
  have i: "face_image (stringify_id ?k) = Some (PStr ''old'')"
    by (simp add: stringify_id_def stored_submission_def)
  have l: "decode_base64_image crowd_world (PStr ''live'') = Some [[2, 3], [4, 6]]"
    by (simp add: decode_base64_image_def crowd_world_def test_world_def)
  have s: "decode_base64_image crowd_world (PStr ''old'') = Some [[5, 6], [7, 8]]"
    by (simp add: decode_base64_image_def crowd_world_def test_world_def)
  have q: "\<not> raises crowd_world InsertOne"
    by (simp add: crowd_world_def test_world_def)
  have vf: "verify_faces crowd_world [[2, 3], [4, 6]] [[5, 6], [7, 8]]
          = faces_failure ''No face detected in second image''"
    by (simp add: verify_faces_def detect_face_def crowd_world_def)
  have nb: "find (\<lambda>kyc. status kyc = ''approved'')
             (get_kyc_submissions_by_user crowd_world ?db ''bob'') = None"
    by (simp add: get_kyc_submissions_by_user_def crowd_world_def scenario_defs)
  note inst = one_record_per_decoded_verification[of crowd_world ?db _ "PStr ''live''"]
  from inst[of "''alice''"] f i l s q
  obtain score same where
    "verify_face_with_stored_image crowd_world ?db ''alice'' (PStr ''live'')
       = (verify_faces crowd_world [[2, 3], [4, 6]] [[5, 6], [7, 8]],
          ?db\<lparr>face_verification_collection :=
               face_verification_collection ?db @
                 [\<lparr>fv_id = ObjectId (new_object_id crowd_world), fv_user_id = ''alice'',
                   fv_kyc_submission_id = str_id (doc_id (stringify_id ?k)),
                   fv_similarity_score = score,
                   fv_verification_result = same,
                   fv_threshold_used = verification_threshold,
                   fv_verification_date = utcnow crowd_world\<rparr>]\<rparr>)"
    by blast
  then have alice: "map_of (fst (verify_face_with_stored_image crowd_world ?db
                              ''alice'' (PStr ''live''))) ''message''
                      = Some (RStr ''No face detected in second image'')"
    and one: "length (face_verification_collection
                (snd (verify_face_with_stored_image crowd_world ?db ''alice'' (PStr ''live''))))
              = 1"
    by (simp_all add: vf faces_failure_def db_of_def)
  from inst[of "''bob''"] nb
  have bob: "snd (verify_face_with_stored_image crowd_world ?db ''bob'' (PStr ''live'')) = ?db"
    by blast
  have f': "find (\<lambda>kyc. status kyc = ''approved'')
              (get_kyc_submissions_by_user readonly_world ?db ''alice'') = Some (stringify_id ?k)"
    by (simp add: get_kyc_submissions_by_user_def readonly_world_def scenario_defs)
  have l': "decode_base64_image readonly_world (PStr ''live'') = Some [[2, 3], [4, 6]]"
    by (simp add: decode_base64_image_def readonly_world_def test_world_def)
  have s': "decode_base64_image readonly_world (PStr ''old'') = Some [[5, 6], [7, 8]]"
    by (simp add: decode_base64_image_def readonly_world_def test_world_def)
  have q': "raises readonly_world InsertOne"
    by (simp add: readonly_world_def)
  from one_record_per_decoded_verification[of readonly_world ?db "''alice''" "PStr ''live''"]
    f' i l' s' q'
  have "verify_face_with_stored_image readonly_world ?db ''alice'' (PStr ''live'')
          = (stored_failure ''Face verification failed due to system error'', ?db)"
    by blast
  then have refused: "snd (verify_face_with_stored_image readonly_world ?db
                             ''alice'' (PStr ''live'')) = ?db"
    by simp
  from f i l s q alice one nb bob f' l' s' q' refused show ?thesis by blast
qed

text \<open>
  C6, as stated, fails when the insert raises: both images decode, and no record is
  written.
\<close>

theorem record_insert_failure_counterexample:
  "find (\<lambda>kyc. status kyc = ''approved'')
      (get_kyc_submissions_by_user readonly_world
         (db_of [stored_submission id_a ''alice'' ''approved'' 10 ''old'']) ''alice'')
     = Some (stringify_id (stored_submission id_a ''alice'' ''approved'' 10 ''old''))
   \<and> decode_base64_image readonly_world (PStr ''live'') = Some [[2, 3], [4, 6]]
   \<and> decode_base64_image readonly_world (PStr ''old'') = Some [[5, 6], [7, 8]]
   \<and> verify_face_with_stored_image readonly_world
        (db_of [stored_submission id_a ''alice'' ''approved'' 10 ''old''])
        ''alice'' (PStr ''live'')
       = (stored_failure ''Face verification failed due to system error'',
          db_of [stored_submission id_a ''alice'' ''approved'' 10 ''old''])
   \<and> face_verification_collection
        (snd (verify_face_with_stored_image readonly_world
                (db_of [stored_submission id_a ''alice'' ''approved'' 10 ''old''])
                ''alice'' (PStr ''live''))) = []"
  by (simp add: face_defs readonly_world_def scenario_defs)

text \<open>
  C7.  In the database \<open>two_approvals\<close> Alice has two approved submissions: the first was
  submitted at time 1000 with the face image \<open>old\<close>, the second at time 2000 with the face
  image \<open>new\<close>.  The live image is compared against \<open>old\<close> (the score 0.9 is the model's
  answer for the face of \<open>old\<close>, 0.3 its answer for the face of \<open>new\<close>), and the record
  written names the submission of time 1000: the submission used is the first approved
  one in the order the repository returns them, not the one with the greatest submission
  date.
\<close>

theorem stored_image_is_first_approved:
  "map (\<lambda>k. (str_id (doc_id k), user_id k, status k, submission_date k, face_image k))
       (kyc_collection two_approvals)
     = [(id_a, ''alice'', ''approved'', 1000, Some (PStr ''old'')),
        (id_b, ''alice'', ''approved'', 2000, Some (PStr ''new''))]
   \<and> map_of (fst (verify_face_with_stored_image studio_world two_approvals
                    ''alice'' (PStr ''live''))) ''similarity_score'' = Some (RFloat 0.9)
   \<and> map (\<lambda>v. (fv_kyc_submission_id v, fv_similarity_score v))
        (face_verification_collection
           (snd (verify_face_with_stored_image studio_world two_approvals
                   ''alice'' (PStr ''live'')))) = [(id_a, 0.9)]
   \<and> compare_faces studio_world (replicate 60 (replicate 60 2)) (replicate 60 (replicate 60 5))
       = Inr (Some 0.9)
   \<and> compare_faces studio_world (replicate 60 (replicate 60 2)) (replicate 60 (replicate 60 9))
       = Inr (Some 0.3)"
  by (simp add: two_approvals_eq db_of_def submission_fields approved_fields studio_vision
        studio_facts verify_face_with_stored_image_def verify_face_with_stored_image_body_def
        get_kyc_submissions_by_user_def stringify_id_def verify_faces_def
        create_face_verification_def verification_threshold_def Let_def)

section \<open>Submission details\<close>

lemma map_of_dict_pop [simp]: "map_of (dict_pop k d) k = None"
  by (induction d) auto

text \<open>
  C10.  Whatever \<open>get_kyc_details\<close> returns under \<open>kyc_submission\<close> for a call with
  \<open>admin=False\<close> has no \<open>admin_notes\<close> and no \<open>document_number\<close> in its
  \<open>identity_documents\<close>.  A call with \<open>admin=True\<close> that finds the submission returns the
  stored document with every field as stored, the \<open>_id\<close> in its string form.
\<close>

theorem get_kyc_details_redacts_for_users:
  "(\<forall>kyc. map_of (get_kyc_details w db kyc_id uid False) ''kyc_submission'' = Some (RDoc kyc)
       \<longrightarrow> admin_notes kyc = None
         \<and> (\<forall>d. identity_documents kyc = Some d \<longrightarrow> map_of d ''document_number'' = None))
   \<and> (\<forall>oid k. ObjectId_of kyc_id = Inr oid \<and> \<not> raises w FindOne
          \<and> find (\<lambda>k. doc_id k = oid) (kyc_collection db) = Some k \<longrightarrow>
          get_kyc_details w db kyc_id uid True
            = [(''success'', RBool True),
               (''kyc_submission'', RDoc (k\<lparr>doc_id := IdStr (str_id (doc_id k))\<rparr>))])"
  by (auto simp: get_kyc_details_def get_kyc_submission_by_id_def failure_def stringify_id_def
        split: option.splits if_splits sum.splits)

lemmas details_defs =
  get_kyc_details_def get_kyc_submission_by_id_def failure_def stringify_id_def

theorem get_kyc_details_redacts_for_users_witness:
  "map_of (get_kyc_details test_world
             (db_of [stored_submission id_a ''alice'' ''rejected'' 10 ''old''])
             id_a (Some ''alice'') False) ''kyc_submission''
     = Some (RDoc ((stored_submission id_a ''alice'' ''rejected'' 10 ''old'')
                     \<lparr>doc_id := IdStr id_a,
                      identity_documents := Some [(''document_type'', PStr ''passport'')],
                      admin_notes := None\<rparr>))
   \<and> ObjectId_of id_a = Inr (ObjectId id_a)
   \<and> \<not> raises test_world FindOne
   \<and> find (\<lambda>k. doc_id k = ObjectId id_a)
        (kyc_collection (db_of [stored_submission id_a ''alice'' ''rejected'' 10 ''old'']))
       = Some (stored_submission id_a ''alice'' ''rejected'' 10 ''old'')
   \<and> map_of (get_kyc_details test_world
             (db_of [stored_submission id_a ''alice'' ''rejected'' 10 ''old''])
             id_a None True) ''kyc_submission''
       = Some (RDoc ((stored_submission id_a ''alice'' ''rejected'' 10 ''old'')
                       \<lparr>doc_id := IdStr id_a\<rparr>))
   \<and> admin_notes (stored_submission id_a ''alice'' ''rejected'' 10 ''old'') = Some ''seen''
   \<and> identity_documents (stored_submission id_a ''alice'' ''rejected'' 10 ''old'')
       = Some [(''document_type'', PStr ''passport''), (''document_number'', PStr ''hash:salt'')]"
proof -
  let ?k = "stored_submission id_a ''alice'' ''rejected'' 10 ''old''"
  let ?db = "db_of [?k]"
  have user: "map_of (get_kyc_details test_world ?db id_a (Some ''alice'') False)
                ''kyc_submission''
     = Some (RDoc (?k\<lparr>doc_id := IdStr id_a,
                      identity_documents := Some [(''document_type'', PStr ''passport'')],
                      admin_notes := None\<rparr>))"
    by (simp add: details_defs scenario_defs)
  have oid: "ObjectId_of id_a = Inr (ObjectId id_a)"
    by (rule ObjectId_of_id_a)
  have quiet: "\<not> raises test_world FindOne"
    by (simp add: test_world_def)
  have found: "find (\<lambda>k. doc_id k = ObjectId id_a) (kyc_collection ?db) = Some ?k"
    by (simp add: db_of_def stored_submission_def)
  from get_kyc_details_redacts_for_users[of test_world ?db id_a None] oid quiet found
  have "get_kyc_details test_world ?db id_a None True
            = [(''success'', RBool True),
               (''kyc_submission'', RDoc (?k\<lparr>doc_id := IdStr (str_id (doc_id ?k))\<rparr>))]"
    by blast
  then have admin: "map_of (get_kyc_details test_world ?db id_a None True) ''kyc_submission''
       = Some (RDoc (?k\<lparr>doc_id := IdStr id_a\<rparr>))"
    by (simp add: stored_submission_def)
  have "admin_notes ?k = Some ''seen''"
    and "identity_documents ?k
       = Some [(''document_type'', PStr ''passport''), (''document_number'', PStr ''hash:salt'')]"
    by (simp_all add: stored_submission_def)
  with user oid quiet found admin show ?thesis by blast
qed


section \<open>The service boundary\<close>

lemma success_failure [simp]: "map_of (failure msg) ''success'' = Some (RBool False)"
  by (simp add: failure_def)

lemma success_stored_failure [simp]:
  "map_of (stored_failure msg) ''success'' = Some (RBool False)"
  by (simp add: stored_failure_def)











section \<open>Updating a submission\<close>

text \<open>The two guards: an approved submission, or one of another user, is refused and
  nothing changes.\<close>

lemma update_kyc_submission_guards:
  assumes "get_kyc_submission_by_id w db kyc_id = Some kyc"
    and "status kyc = ''approved'' \<or> user_id kyc \<noteq> uid"
  shows "(\<exists>msg. fst (update_kyc_submission w db kyc_id uid update_data) = failure msg)
       \<and> snd (update_kyc_submission w db kyc_id uid update_data) = db"
  using assms
  by (auto simp: update_kyc_submission_def update_kyc_submission_body_def)

text \<open>
  C4.  In the database \<open>one_rejection\<close> Alice's submission has been rejected.  She sends a
  patch with a new document image, which passes partial validation.  The filter of the
  \<open>update_one\<close> is the \<open>_id\<close> of the document as \<open>get_kyc_submission_by_id\<close> returned it, a
  string, while the stored \<open>_id\<close> is an ObjectId: no document matches, the operation
  answers \<open>No changes were made to KYC submission\<close>, and the database, with the status
  \<open>rejected\<close>, is as before.  (By \<open>update_kyc_submission_unchanged\<close> this is so for every
  database whose documents carry ObjectIds.)
\<close>

theorem update_kyc_submission_never_matches:
  "map (\<lambda>k. (str_id (doc_id k), user_id k, status k)) (kyc_collection one_rejection)
     = [(id_a, ''alice'', ''rejected'')]
   \<and> fst (validate_kyc_data studio_world
            [(''identity_documents'', PDict [(''document_image'', PStr ''new'')])] True)
   \<and> update_kyc_submission studio_world one_rejection id_a ''alice''
        [(''identity_documents'', PDict [(''document_image'', PStr ''new'')])]
       = (failure ''No changes were made to KYC submission'', one_rejection)"
  by (simp add: one_rejection_eq db_of_def submission_fields update_kyc_submission_def
        update_kyc_submission_body_def get_kyc_submission_by_id_def ObjectId_of_id_a
        studio_facts stringify_id_def validate_kyc_data_def present_def check_field_def
        check_address_def face_image_check_def has_key_def merged_field_def Let_def)

end
